theory Spec2Isabelle
  imports Main
begin

section \<open>Python helpers\<close>

text \<open>
  \<^verbatim>\<open>str.find(sub)\<close>: the lowest index at which \<open>sub\<close> occurs, or \<open>-1\<close> when it does
  not occur.
\<close>

fun startswith :: "string \<Rightarrow> string \<Rightarrow> bool" where
  "startswith s [] = True"
| "startswith [] (c # sub) = False"
| "startswith (a # s) (c # sub) = (a = c \<and> startswith s sub)"

fun find_from :: "nat \<Rightarrow> string \<Rightarrow> string \<Rightarrow> int" where
  "find_from i [] sub = (if sub = [] then int i else - 1)"
| "find_from i (a # s) sub =
     (if startswith (a # s) sub then int i else find_from (Suc i) s sub)"

definition str_find :: "string \<Rightarrow> string \<Rightarrow> int" where
  "str_find s sub = find_from 0 s sub"

text \<open>
  \<^verbatim>\<open>str.strip()\<close> removes leading and trailing whitespace: the characters for which
  \<^verbatim>\<open>str.isspace\<close> holds, which among the code points below 256 are space, tab, line
  feed, vertical tab, form feed, carriage return, the four separators 0x1C to 0x1F, next
  line (0x85) and no-break space (0xA0).
\<close>

definition isspace :: "char \<Rightarrow> bool" where
  "isspace c =
     (c = CHR 0x20 \<or> c = CHR 0x09 \<or> c = CHR 0x0A \<or> c = CHR 0x0B \<or> c = CHR 0x0C \<or>
      c = CHR 0x0D \<or> c = CHR 0x1C \<or> c = CHR 0x1D \<or> c = CHR 0x1E \<or> c = CHR 0x1F \<or>
      c = CHR 0x85 \<or> c = CHR 0xA0)"

definition strip :: "string \<Rightarrow> string" where
  "strip s = rev (dropWhile isspace (rev (dropWhile isspace s)))"

text \<open>\<^verbatim>\<open>dict.get(key, default)\<close> on an entry that may be absent.\<close>

definition get_or :: "'a option \<Rightarrow> 'a \<Rightarrow> 'a" where
  "get_or v d = (case v of None \<Rightarrow> d | Some x \<Rightarrow> x)"

text \<open>\<^verbatim>\<open>"{}".format(v)\<close> for a value that may be \<^verbatim>\<open>None\<close>.\<close>

definition format_opt :: "string option \<Rightarrow> string" where
  "format_opt v = (case v of None \<Rightarrow> ''None'' | Some x \<Rightarrow> x)"

section \<open>The configuration traits of class Kqlmagic\<close>

text \<open>
  The configurable traits of \<^verbatim>\<open>class Kqlmagic\<close> that the modelled methods read or
  write. \<open>default_kqlmagic\<close> holds the default each trait is declared with.
\<close>

record kqlmagic =
  short_errors :: bool
  auto_dataframe :: bool
  columns_to_local_vars :: bool
  feedback :: bool
  show_conn_info :: "string option"
  last_raw_result_var :: string
  enable_suppress_result :: bool
  validate_connection_string :: bool
  auto_popup_schema :: bool
  notebook_app :: string
  add_schema_to_help :: bool
  cache :: "string option"
  use_cache :: "string option"

definition default_kqlmagic :: kqlmagic where
  "default_kqlmagic =
     \<lparr> short_errors = True,
       auto_dataframe = False,
       columns_to_local_vars = False,
       feedback = True,
       show_conn_info = Some ''current'',
       last_raw_result_var = ''_kql_raw_result_'',
       enable_suppress_result = True,
       validate_connection_string = True,
       auto_popup_schema = True,
       notebook_app = ''jupyternotebook'',
       add_schema_to_help = True,
       cache = None,
       use_cache = None \<rparr>"

datatype markdown = MarkdownString string

section \<open>The cache commands\<close>

text \<open>
  \<^verbatim>\<open>execute_cache_command\<close> and \<^verbatim>\<open>execute_use_cache_command\<close>. The argument is the
  command's parameter, which may be \<^verbatim>\<open>None\<close>; the first argument of each function is
  the constant \<^verbatim>\<open>Constants.MAGIC_PACKAGE_NAME\<close>, whose module is outside the sources.
  Each returns the status string and the instance after the assignment.
\<close>

definition execute_cache_command ::
  "string \<Rightarrow> string option \<Rightarrow> kqlmagic \<Rightarrow> markdown \<times> kqlmagic" where
  "execute_cache_command package_name cache_name self =
     (if cache_name \<noteq> None \<and> cache_name \<noteq> Some ''None'' \<and> length (the cache_name) > 0
      then
        (let self1 = self\<lparr>cache := cache_name\<rparr> in
         (MarkdownString (package_name @ '' caching to folder **'' @ format_opt (cache self1)
            @ ''** was enabled.''), self1))
      else
        (let self1 = self\<lparr>cache := None\<rparr> in
         (MarkdownString (package_name @ '' caching was disabled.''), self1)))"

definition execute_use_cache_command ::
  "string \<Rightarrow> string option \<Rightarrow> kqlmagic \<Rightarrow> markdown \<times> kqlmagic" where
  "execute_use_cache_command package_name cache_name self =
     (if cache_name \<noteq> None \<and> cache_name \<noteq> Some ''None'' \<and> length (the cache_name) > 0
      then
        (let self1 = self\<lparr>cache := cache_name\<rparr> in
         (MarkdownString (package_name @ '' cache in folder **'' @ format_opt (use_cache self1)
            @ ''** was enabled.''), self1))
      else
        (let self1 = self\<lparr>cache := None\<rparr> in
         (MarkdownString (package_name @ '' cache was disabled.''), self1)))"

section \<open>Data model of the query lifecycle\<close>

text \<open>
  Exceptions are values. \<^verbatim>\<open>execute_query\<close> tells three kinds apart: the two it catches
  by class around connection resolution, and everything else below \<^verbatim>\<open>Exception\<close>.
  \<open>KqlEngineError\<close> is the class imported from \<^verbatim>\<open>Kqlmagic.kql_engine\<close>.
  \<open>ConnectionError\<close> is the builtin class of Python: the module imports only
  \<^verbatim>\<open>Connection\<close> from \<^verbatim>\<open>Kqlmagic.connection\<close>, so an error class of the registry's own
  is among the other exceptions. The string is what \<^verbatim>\<open>str(e)\<close> returns.
\<close>

datatype exn_kind = KqlEngineError | ConnectionError | OtherException

datatype exn = Exn exn_kind string

fun kind :: "exn \<Rightarrow> exn_kind" where
  "kind (Exn k m) = k"

fun str :: "exn \<Rightarrow> string" where
  "str (Exn k m) = m"

text \<open>
  The engine classes of \<^verbatim>\<open>_ENGINES\<close>. \<^verbatim>\<open>isinstance(conn, KustoEngine)\<close> holds for a
  connection of the first class; the other classes are taken not to derive from it.
\<close>

datatype engine = KustoEngine | AppinsightsEngine | LoganalyticsEngine | CacheEngine

text \<open>
  A connection object: its engine class, what its accessors \<^verbatim>\<open>_URI_SCHEMA_NAME\<close>,
  \<^verbatim>\<open>get_cluster()\<close>, \<^verbatim>\<open>get_database()\<close> and \<^verbatim>\<open>get_conn_name()\<close> return, the three
  entries of its \<^verbatim>\<open>options\<close> dictionary that \<^verbatim>\<open>execute_query\<close> reads and writes (an
  absent entry reads as false), and the value last given to
  \<^verbatim>\<open>set_validation_result\<close>.
\<close>

record connection =
  engine :: engine
  uri_schema_name :: string
  cluster :: string
  database :: string
  conn_name :: string
  validate_connection_string_done :: bool
  auto_popup_schema_done :: bool
  add_schema_to_help_done :: bool
  validation_result :: "bool option"

text \<open>
  The option bag of one invocation. Every entry may be absent (\<open>None\<close>), which is what
  \<^verbatim>\<open>options.get\<close> tests.
\<close>

record options =
  opt_suppress_results :: "bool option"
  opt_enable_suppress_result :: "bool option"
  opt_short_errors :: "bool option"
  opt_validate_connection_string :: "bool option"
  opt_popup_schema :: "bool option"
  opt_auto_popup_schema :: "bool option"
  opt_add_schema_to_help :: "bool option"
  opt_show_conn_info :: "string option"
  opt_save_as :: "string option"
  opt_save_to :: "string option"
  opt_last_raw_result_var :: "string option"
  opt_feedback :: "bool option"
  opt_columns_to_local_vars :: "bool option"
  opt_auto_dataframe :: "bool option"
  opt_result_var :: "string option"
  opt_cache :: "string option"
  opt_use_cache :: "string option"

definition no_options :: options where
  "no_options =
     \<lparr> opt_suppress_results = None, opt_enable_suppress_result = None,
       opt_short_errors = None, opt_validate_connection_string = None,
       opt_popup_schema = None, opt_auto_popup_schema = None,
       opt_add_schema_to_help = None, opt_show_conn_info = None,
       opt_save_as = None, opt_save_to = None, opt_last_raw_result_var = None,
       opt_feedback = None, opt_columns_to_local_vars = None,
       opt_auto_dataframe = None, opt_result_var = None,
       opt_cache = None, opt_use_cache = None \<rparr>"

text \<open>The fields of the parsed invocation that \<^verbatim>\<open>execute_query\<close> reads.\<close>

record parsed =
  parsed_query :: string
  parsed_connection :: string
  parsed_options :: options

text \<open>
  Modelled from the spec: the raw result of the backend and the \<^verbatim>\<open>ResultSet\<close> that
  wraps it (\<^verbatim>\<open>results.py\<close> is outside the sources). A raw result is a table given by
  its columns, each a name with its data, the backend's partial-failure flag and the
  record count. A dataframe is the same table under another type.
\<close>

record raw_result =
  rr_columns :: "(string \<times> string list) list"
  rr_is_partial :: bool
  rr_records_count :: nat

datatype dataframe = DataFrame "(string \<times> string list) list"

text \<open>
  Python values bound in a namespace. A \<^verbatim>\<open>ResultSet\<close> is an object that several
  variables may share and that is mutated after it is bound, so a namespace holds a
  reference to it.
\<close>

datatype pyval =
    PyNone
  | PyStr string
  | PyColumn "string list"
  | PyDataFrame dataframe
  | ResultSetRef nat

type_synonym namespace = "string \<Rightarrow> pyval option"

datatype feedback_item =
    Done int nat
  | Note string

record result_set =
  rs_raw_query_result :: raw_result
  parametrized_query :: string
  fork_table_id :: nat
  rs_options :: options
  metadata_magic :: "kqlmagic option"
  metadata_parsed :: "parsed option"
  metadata_connection :: "string option"
  metadata_conn_info :: "string list"
  metadata_start_time :: "int option"
  metadata_end_time :: "int option"
  feedback_info :: "feedback_item list"
  suppress_result :: bool
  display_info :: bool

definition is_partial_table :: "result_set \<Rightarrow> bool" where
  "is_partial_table rs = rr_is_partial (rs_raw_query_result rs)"

definition records_count :: "result_set \<Rightarrow> nat" where
  "records_count rs = rr_records_count (rs_raw_query_result rs)"

text \<open>
  Modelled from the spec: \<^verbatim>\<open>ResultSet.to_dict\<close> gives every column under its name
  (of two columns with one name the later one stays, as in a Python dictionary), and
  \<^verbatim>\<open>ResultSet.to_dataframe\<close> gives the table as a dataframe.
\<close>

definition to_dict :: "result_set \<Rightarrow> namespace" where
  "to_dict rs =
     map_of (rev (map (\<lambda>(name, data). (name, PyColumn data))
       (rr_columns (rs_raw_query_result rs))))"

definition to_dataframe :: "result_set \<Rightarrow> dataframe" where
  "to_dataframe rs = DataFrame (rr_columns (rs_raw_query_result rs))"

section \<open>Collaborators, state and trace\<close>

text \<open>
  What one invocation makes visible outside itself: the messages it displays and the
  calls it makes to its collaborators, in order. A call on a connection object records
  the object; \<open>AddMenuItem\<close> records the connection whose name and schema path
  \<^verbatim>\<open>Help_html.add_menu_item\<close> receives, then these two arguments.
\<close>

datatype save_target = FilePath string | FileFolder string | CacheFolder

datatype event =
    HelpFlush pyval
  | DisplayJavascript
  | DangerMessage string
  | InfoMessage string
  | ConnectionInfoMessage "string list"
  | WarningMessage string
  | SuccessMessage "feedback_item list"
  | GetConnection string
  | Validate nat
  | GetSchemaFilePath nat
  | PopupSchema "string option" nat
  | AddMenuItem nat string "string option"
  | Execute nat string
  | Save save_target

text \<open>
  The process state that \<^verbatim>\<open>execute_query\<close> reads and writes: the connection objects
  of the registry \<^verbatim>\<open>Connection.connections\<close> (an object is identified by its index;
  the registry holds the objects below \<open>n_connections\<close>), the \<^verbatim>\<open>ResultSet\<close> objects
  allocated so far, the namespace \<^verbatim>\<open>self.shell.user_ns\<close>, and the trace. \<open>raised\<close> is a
  history that no code reads: the exceptions that calls to the collaborators have raised
  so far, each recorded where the call is made.
\<close>

record state =
  n_connections :: nat
  connections :: "nat \<Rightarrow> connection"
  n_result_sets :: nat
  result_sets :: "nat \<Rightarrow> result_set"
  shell_user_ns :: namespace
  log :: "event list"
  raised :: "exn list"

text \<open>
  The collaborators are outside the sources, so what each of their calls gives during one
  invocation is a parameter of the model: a value, or the exception the call raises.
  \<open>get_connection_result\<close> says, for a connection string, whether
  \<^verbatim>\<open>Connection.get_connection\<close> raises, returns an object of the registry, or creates
  and registers a new one. The two formatting functions of the registry take the
  registry as it is when they are called. The clock gives \<open>start_time\<close> and \<open>end_time\<close>.
  \<open>get_schema_file_path_result\<close> takes the number of schema paths computed before, so a
  second computation may give another path, then the connection.
  \<open>dataframe_comparison_error\<close> is the \<^verbatim>\<open>ValueError\<close> that pandas raises when the truth
  value of a comparison with a dataframe is taken.
  Calls that only display (the messages of \<^verbatim>\<open>Display\<close>, the schema popup, the help-menu
  entry, the setters of an object) are recorded and do not raise.
\<close>

datatype resolution = Existing nat | Created connection

record env =
  showfiles_base_url :: "string option"
  get_connection_result :: "string \<Rightarrow> exn + resolution"
  validate_result :: "nat \<Rightarrow> exn option"
  get_schema_file_path_result :: "nat \<Rightarrow> nat \<Rightarrow> exn + string option"
  get_connection_list_formatted :: "nat \<Rightarrow> (nat \<Rightarrow> connection) \<Rightarrow> string list"
  get_current_connection_formatted :: "nat \<Rightarrow> (nat \<Rightarrow> connection) \<Rightarrow> string"
  expand_result :: "string \<Rightarrow> exn + string"
  execute_result :: "nat \<Rightarrow> string \<Rightarrow> exn + raw_result"
  save_result :: "save_target \<Rightarrow> exn + string"
  start_time :: int
  end_time :: int
  fork_result_result :: "nat \<Rightarrow> nat \<Rightarrow> exn + nat"
  update_result :: "exn option"
  create_fork_results_result :: "exn option"
  update_fork_results_result :: "exn option"
  dataframe_comparison_error :: exn

definition emit :: "event \<Rightarrow> state \<Rightarrow> state" where
  "emit ev s = s\<lparr>log := log s @ [ev]\<rparr>"

definition update_connection :: "nat \<Rightarrow> (connection \<Rightarrow> connection) \<Rightarrow> state \<Rightarrow> state" where
  "update_connection conn f s = s\<lparr>connections := (connections s)(conn := f (connections s conn))\<rparr>"

definition update_result_set :: "nat \<Rightarrow> (result_set \<Rightarrow> result_set) \<Rightarrow> state \<Rightarrow> state" where
  "update_result_set r f s = s\<lparr>result_sets := (result_sets s)(r := f (result_sets s r))\<rparr>"

text \<open>
  A call to a collaborator raised \<open>e\<close>; and a call with its outcome, recorded when it is
  an exception.
\<close>

definition note_raise :: "exn \<Rightarrow> state \<Rightarrow> state" where
  "note_raise e s = s\<lparr>raised := raised s @ [e]\<rparr>"

definition raising :: "exn + 'a \<Rightarrow> state \<Rightarrow> (exn + 'a) \<times> state" where
  "raising r s = (r, case r of Inl e \<Rightarrow> note_raise e s | Inr a \<Rightarrow> s)"

text \<open>The number of schema file paths computed so far, read off the trace.\<close>

fun is_get_schema_file_path :: "event \<Rightarrow> bool" where
  "is_get_schema_file_path (GetSchemaFilePath conn) = True"
| "is_get_schema_file_path ev = False"

definition schema_path_calls :: "state \<Rightarrow> nat" where
  "schema_path_calls s = length (filter is_get_schema_file_path (log s))"

text \<open>\<^verbatim>\<open>self.shell.user_ns.update(d)\<close>.\<close>

definition user_ns_update :: "namespace \<Rightarrow> state \<Rightarrow> state" where
  "user_ns_update d s = s\<lparr>shell_user_ns := shell_user_ns s ++ d\<rparr>"

text \<open>
  Modelled from the spec: \<^verbatim>\<open>Connection.get_connection(connection_string, user_ns,
  **options)\<close> (\<^verbatim>\<open>connection.py\<close> is outside the sources) resolves a connection text
  to a connection object of the process-wide registry. It raises, returns an object that
  is there already, or creates a new one, which is stored at the next free index and so
  registered.
\<close>

definition get_connection :: "env \<Rightarrow> string \<Rightarrow> state \<Rightarrow> (exn + nat) \<times> state" where
  "get_connection env connection_string s =
     (let s1 = emit (GetConnection connection_string) s in
      case get_connection_result env connection_string of
        Inl e \<Rightarrow> (Inl e, note_raise e s1)
      | Inr (Existing conn) \<Rightarrow> (Inr conn, s1)
      | Inr (Created c) \<Rightarrow>
          (Inr (n_connections s1),
           s1\<lparr>connections := (connections s1)(n_connections s1 := c),
              n_connections := Suc (n_connections s1)\<rparr>))"

text \<open>\<^verbatim>\<open>conn.validate(**options)\<close>: the probe is called, and may raise.\<close>

definition validate :: "env \<Rightarrow> nat \<Rightarrow> state \<Rightarrow> exn option \<times> state" where
  "validate env conn s =
     (let s1 = emit (Validate conn) s in
      case validate_result env conn of
        None \<Rightarrow> (None, s1)
      | Some e \<Rightarrow> (Some e, note_raise e s1))"

definition set_validation_result :: "nat \<Rightarrow> bool \<Rightarrow> state \<Rightarrow> state" where
  "set_validation_result conn b s = update_connection conn (\<lambda>c. c\<lparr>validation_result := Some b\<rparr>) s"

text \<open>\<^verbatim>\<open>Database_html.get_schema_file_path(conn, **options)\<close>.\<close>

definition get_schema_file_path :: "env \<Rightarrow> nat \<Rightarrow> state \<Rightarrow> (exn + string option) \<times> state" where
  "get_schema_file_path env conn s =
     raising (get_schema_file_path_result env (schema_path_calls s) conn)
       (emit (GetSchemaFilePath conn) s)"

text \<open>The truth value Python gives an optional string: \<^verbatim>\<open>None\<close> and \<^verbatim>\<open>""\<close> are false.\<close>

definition truthy :: "string option \<Rightarrow> bool" where
  "truthy v = (case v of None \<Rightarrow> False | Some x \<Rightarrow> x \<noteq> [])"

section \<open>Connection information\<close>

text \<open>
  \<^verbatim>\<open>_get_connection_info\<close> and \<^verbatim>\<open>_show_connection_info\<close>. Their keyword arguments
  matter through the entry \<^verbatim>\<open>show_conn_info\<close> only, which is the second argument.
\<close>

definition get_connection_info :: "env \<Rightarrow> kqlmagic \<Rightarrow> string option \<Rightarrow> state \<Rightarrow> string list" where
  "get_connection_info env self opt_mode s =
     (let mode = (case opt_mode of None \<Rightarrow> show_conn_info self | Some m \<Rightarrow> Some m) in
      if mode = Some ''current''
      then get_connection_list_formatted env (n_connections s) (connections s)
      else if mode = Some ''list''
      then [get_current_connection_formatted env (n_connections s) (connections s)]
      else [])"

definition show_connection_info :: "env \<Rightarrow> kqlmagic \<Rightarrow> string option \<Rightarrow> state \<Rightarrow> state" where
  "show_connection_info env self opt_mode s =
     (let msg = get_connection_info env self opt_mode s in
      if length msg > 0 then emit (ConnectionInfoMessage msg) s else s)"

definition submit_get_notebook_url :: "kqlmagic \<Rightarrow> state \<Rightarrow> state" where
  "submit_get_notebook_url self s =
     (if notebook_app self \<noteq> ''jupyterlab'' then emit DisplayJavascript s else s)"

section \<open>execute_query: validation and the one-time schema actions\<close>

text \<open>
  Sequencing of calls that may raise: the first exception ends the sequence, with the
  state reached so far.
\<close>

definition and_then ::
  "(state \<Rightarrow> ('e + 'a) \<times> state) \<Rightarrow> ('a \<Rightarrow> state \<Rightarrow> ('e + 'b) \<times> state) \<Rightarrow> state \<Rightarrow> ('e + 'b) \<times> state" where
  "and_then m f s = (case m s of (Inl e, s1) \<Rightarrow> (Inl e, s1) | (Inr a, s1) \<Rightarrow> f a s1)"

text \<open>The test that decides the retry (the condition of the inner \<^verbatim>\<open>except\<close> clause).\<close>

definition retry_condition :: "string \<Rightarrow> connection \<Rightarrow> bool" where
  "retry_condition msg c =
     (str_find msg ''AADSTS50079'' > 0 \<and> str_find msg ''multi-factor authentication'' > 0
      \<and> engine c = KustoEngine)"

text \<open>
  \<^verbatim>\<open>"{0}://code().cluster('{1}').database('{2}')".format(uri_schema_name, cluster_name,
  database_name)\<close>.
\<close>

definition code_connection_string :: "connection \<Rightarrow> string" where
  "code_connection_string c =
     uri_schema_name c @ ''://code().cluster('' @ [CHR 0x27] @ cluster c @ [CHR 0x27]
       @ '').database('' @ [CHR 0x27] @ database c @ [CHR 0x27] @ '')''"

text \<open>
  The block under \<^verbatim>\<open>if retry_with_code\<close>. It assigns the local variable
  \<^verbatim>\<open>connection_string\<close>, which the outer handler reads later: so an exception leaves the
  block together with the value of that variable, and so does the connection on success.
\<close>

definition retry_with_code ::
  "env \<Rightarrow> nat \<Rightarrow> state \<Rightarrow> ((exn \<times> string) + (nat \<times> string)) \<times> state" where
  "retry_with_code env conn s =
     (let s1 = emit (InfoMessage ''replaced connection with code authentication'') s;
          connection_string = code_connection_string (connections s1 conn)
      in case get_connection env connection_string s1 of
           (Inl e, s2) \<Rightarrow> (Inl (e, connection_string), s2)
         | (Inr conn2, s2) \<Rightarrow>
             (case validate env conn2 s2 of
                (Some e, s3) \<Rightarrow> (Inl (e, connection_string), s3)
              | (None, s3) \<Rightarrow>
                  (Inr (conn2, connection_string), set_validation_result conn2 True s3)))"

text \<open>
  From \<^verbatim>\<open># validate connection\<close> to the assignment of
  \<^verbatim>\<open>validate_connection_string_done\<close>.
\<close>

definition validate_connection ::
  "env \<Rightarrow> kqlmagic \<Rightarrow> options \<Rightarrow> nat \<Rightarrow> string \<Rightarrow> state
     \<Rightarrow> ((exn \<times> string) + (nat \<times> string)) \<times> state" where
  "validate_connection env self options conn connection_string s =
     (case
        (if \<not> validate_connection_string_done (connections s conn)
            \<and> get_or (opt_validate_connection_string options) (validate_connection_string self)
         then
           (case validate env conn s of
              (None, s1) \<Rightarrow> (Inr (conn, connection_string), set_validation_result conn True s1)
            | (Some e, s1) \<Rightarrow>
                (if retry_condition (str e) (connections s1 conn)
                 then retry_with_code env conn (emit (DangerMessage (str e)) s1)
                 else (Inl (e, connection_string), s1)))
         else (Inr (conn, connection_string), s))
      of
        (Inl ex, s2) \<Rightarrow> (Inl ex, s2)
      | (Inr (conn1, connection_string1), s2) \<Rightarrow>
          (Inr (conn1, connection_string1),
           update_connection conn1 (\<lambda>c. c\<lparr>validate_connection_string_done := True\<rparr>) s2))"

text \<open>
  From \<^verbatim>\<open>schema_file_path = None\<close> to the assignment of \<^verbatim>\<open>add_schema_to_help_done\<close>.
  \<^verbatim>\<open>Database_html.popup_schema\<close> and \<^verbatim>\<open>Help_html.add_menu_item\<close> display; they are
  recorded in the trace.
\<close>

definition schema_popup_and_help ::
  "env \<Rightarrow> kqlmagic \<Rightarrow> options \<Rightarrow> nat \<Rightarrow> state \<Rightarrow> (exn + unit) \<times> state" where
  "schema_popup_and_help env self options conn s =
     (case
        (if get_or (opt_popup_schema options) False
            \<or> (\<not> auto_popup_schema_done (connections s conn)
                \<and> get_or (opt_auto_popup_schema options) (auto_popup_schema self))
         then
           (case get_schema_file_path env conn s of
              (Inl e, s1) \<Rightarrow> (Inl e, s1)
            | (Inr schema_file_path, s1) \<Rightarrow>
                (Inr schema_file_path, emit (PopupSchema schema_file_path conn) s1))
         else (Inr None, s))
      of
        (Inl e, s2) \<Rightarrow> (Inl e, s2)
      | (Inr schema_file_path, s2) \<Rightarrow>
          (let s3 = update_connection conn (\<lambda>c. c\<lparr>auto_popup_schema_done := True\<rparr>) s2 in
           if \<not> add_schema_to_help_done (connections s3 conn)
              \<and> get_or (opt_add_schema_to_help options) False
           then
             (case (if truthy schema_file_path then (Inr schema_file_path, s3)
                    else get_schema_file_path env conn s3) of
                (Inl e, s4) \<Rightarrow> (Inl e, s4)
              | (Inr schema_file_path1, s4) \<Rightarrow>
                  (Inr (),
                   update_connection conn (\<lambda>c. c\<lparr>add_schema_to_help_done := True\<rparr>)
                     (emit (AddMenuItem conn (conn_name (connections s4 conn)) schema_file_path1) s4)))
           else (Inr (), s3)))"

section \<open>execute_query: submitting the query\<close>

text \<open>\<^verbatim>\<open>CacheClient().save(...)\<close> with the target its keyword arguments select.\<close>

definition save :: "env \<Rightarrow> save_target \<Rightarrow> state \<Rightarrow> (exn + string) \<times> state" where
  "save env target s = raising (save_result env target) (emit (Save target) s)"

text \<open>
  From \<^verbatim>\<open># submit query\<close> to the two saves. The query is expanded by the
  \<^verbatim>\<open>Parameterizer\<close> on a top-level invocation and taken from \<^verbatim>\<open>result_set\<close> on a
  continuation. The result is the expanded query, the raw result and the local variable
  \<^verbatim>\<open>save_as_file_path\<close>, which stays unassigned (\<open>None\<close>) when neither save runs.
\<close>

definition submit_query ::
  "env \<Rightarrow> options \<Rightarrow> nat \<Rightarrow> string \<Rightarrow> nat option \<Rightarrow> state
     \<Rightarrow> (exn + (string \<times> raw_result \<times> string option)) \<times> state" where
  "submit_query env options conn query result_set =
     and_then
       (\<lambda>s. raising (case result_set of
                      None \<Rightarrow> expand_result env query
                    | Some r \<Rightarrow> Inr (parametrized_query (result_sets s r))) s)
       (\<lambda>parametrized_query1.
     and_then
       (\<lambda>s. raising (execute_result env conn parametrized_query1)
              (emit (Execute conn parametrized_query1) s))
       (\<lambda>raw_query_result.
     and_then
       (case opt_save_as options of
          None \<Rightarrow> (\<lambda>s. (Inr None, s))
        | Some filepath \<Rightarrow> and_then (save env (FilePath filepath)) (\<lambda>path s. (Inr (Some path), s)))
       (\<lambda>save_as_file_path.
     and_then
       (case opt_save_to options of
          None \<Rightarrow> (\<lambda>s. (Inr save_as_file_path, s))
        | Some filefolder \<Rightarrow> and_then (save env (FileFolder filefolder)) (\<lambda>path s. (Inr (Some path), s)))
       (\<lambda>save_as_file_path1 s.
          (Inr (parametrized_query1, raw_query_result, save_as_file_path1), s)))))"

text \<open>
  \<^verbatim>\<open># model query results\<close>: a fresh \<^verbatim>\<open>ResultSet\<close> on a top-level invocation, the fork
  0 of \<^verbatim>\<open>result_set\<close>, updated in place, on a continuation. The result is the object
  \<^verbatim>\<open>saved_result\<close> and \<^verbatim>\<open>fork_table_id\<close>.
\<close>

definition model_query_results ::
  "env \<Rightarrow> kqlmagic \<Rightarrow> parsed \<Rightarrow> nat \<Rightarrow> string \<Rightarrow> raw_result \<Rightarrow> nat option \<Rightarrow> state
     \<Rightarrow> (exn + (nat \<times> nat)) \<times> state" where
  "model_query_results env self parsed conn parametrized_query1 raw_query_result result_set s =
     (case result_set of
        None \<Rightarrow>
          (let saved_result = n_result_sets s;
               object =
                 \<lparr> rs_raw_query_result = raw_query_result,
                   parametrized_query = parametrized_query1,
                   fork_table_id = 0,
                   rs_options = parsed_options parsed,
                   metadata_magic = Some self,
                   metadata_parsed = Some parsed,
                   metadata_connection = Some (conn_name (connections s conn)),
                   metadata_conn_info = [],
                   metadata_start_time = None,
                   metadata_end_time = None,
                   feedback_info = [],
                   suppress_result = False,
                   display_info = False \<rparr>
           in (Inr (saved_result, 0),
               s\<lparr>result_sets := (result_sets s)(saved_result := object),
                 n_result_sets := Suc saved_result\<rparr>))
      | Some r \<Rightarrow>
          (case fork_result_result env r 0 of
             Inl e \<Rightarrow> (Inl e, note_raise e s)
           | Inr saved_result \<Rightarrow>
               (let s1 = update_result_set saved_result (\<lambda>rs. rs\<lparr>feedback_info := []\<rparr>) s in
                case update_result env of
                  Some e \<Rightarrow> (Inl e, note_raise e s1)
                | None \<Rightarrow>
                    (Inr (saved_result, fork_table_id (result_sets s r)),
                     update_result_set saved_result
                       (\<lambda>rs. rs\<lparr>rs_raw_query_result := raw_query_result\<rparr>) s1))))"

section \<open>execute_query: shaping the result\<close>

text \<open>\<^verbatim>\<open>if options.get("feedback", self.feedback): saved_result.feedback_info.append(item)\<close>.\<close>

definition add_feedback :: "kqlmagic \<Rightarrow> options \<Rightarrow> nat \<Rightarrow> feedback_item \<Rightarrow> state \<Rightarrow> state" where
  "add_feedback self options saved_result item s =
     (if get_or (opt_feedback options) (feedback self)
      then update_result_set saved_result (\<lambda>rs. rs\<lparr>feedback_info := feedback_info rs @ [item]\<rparr>) s
      else s)"

text \<open>
  The metadata, the warning on a partial table and the \<^verbatim>\<open>Done\<close> feedback, whose text
  shows the elapsed time and the record count.
\<close>

definition attach_metadata ::
  "env \<Rightarrow> kqlmagic \<Rightarrow> options \<Rightarrow> string \<Rightarrow> bool \<Rightarrow> nat \<Rightarrow> state \<Rightarrow> state" where
  "attach_metadata env self options connection_string suppress_results saved_result s =
     (let conn_info =
            (if connection_string = [] \<and> n_connections s > 0
             then get_connection_info env self (opt_show_conn_info options) s else []);
          s1 = update_result_set saved_result
                 (\<lambda>rs. rs\<lparr>metadata_conn_info := conn_info,
                          metadata_start_time := Some (start_time env),
                          metadata_end_time := Some (end_time env)\<rparr>) s;
          s2 = (if is_partial_table (result_sets s1 saved_result) \<and> \<not> suppress_results
                then emit (WarningMessage (''partial results, query had errors (see ''
                       @ format_opt (opt_last_raw_result_var options) @ ''.dataSetCompletion)'')) s1
                else s1)
      in add_feedback self options saved_result
           (Done (end_time env - start_time env) (records_count (result_sets s2 saved_result))) s2)"

text \<open>
  The three steps that decide the local variable \<^verbatim>\<open>result\<close>: each takes its current
  value and gives the new one.
\<close>

definition columns_to_local_vars_step ::
  "kqlmagic \<Rightarrow> options \<Rightarrow> nat \<Rightarrow> pyval \<Rightarrow> state \<Rightarrow> pyval \<times> state" where
  "columns_to_local_vars_step self options saved_result result s =
     (if get_or (opt_columns_to_local_vars options) (columns_to_local_vars self)
      then
        (let s1 = add_feedback self options saved_result
                    (Note ''Returning raw data to local variables'') s
         in (PyNone, user_ns_update (to_dict (result_sets s1 saved_result)) s1))
      else (result, s))"

definition auto_dataframe_step ::
  "kqlmagic \<Rightarrow> options \<Rightarrow> nat \<Rightarrow> pyval \<Rightarrow> state \<Rightarrow> pyval \<times> state" where
  "auto_dataframe_step self options saved_result result s =
     (if get_or (opt_auto_dataframe options) (auto_dataframe self)
      then
        (let s1 = add_feedback self options saved_result
                    (Note ''Returning data converted to pandas dataframe'') s
         in (PyDataFrame (to_dataframe (result_sets s1 saved_result)), s1))
      else (result, s))"

definition result_var_step ::
  "kqlmagic \<Rightarrow> options \<Rightarrow> nat \<Rightarrow> nat option \<Rightarrow> pyval \<Rightarrow> state \<Rightarrow> pyval \<times> state" where
  "result_var_step self options saved_result result_set result s =
     (if truthy (opt_result_var options) \<and> result_set = None
      then
        (let result_var = the (opt_result_var options);
             s1 = add_feedback self options saved_result
                    (Note (''Returning data to local variable '' @ result_var)) s
         in (PyNone,
             user_ns_update
               [result_var \<mapsto> (if result \<noteq> PyNone then result else ResultSetRef saved_result)] s1))
      else (result, s))"

text \<open>The save into the cache folder, and the feedback about the saves made earlier.\<close>

definition cache_step :: "env \<Rightarrow> kqlmagic \<Rightarrow> options \<Rightarrow> nat \<Rightarrow> state \<Rightarrow> (exn + unit) \<times> state" where
  "cache_step env self options saved_result s =
     (if opt_cache options \<noteq> None \<and> opt_cache options \<noteq> opt_use_cache options
      then
        (case save env CacheFolder s of
           (Inl e, s1) \<Rightarrow> (Inl e, s1)
         | (Inr file_path, s1) \<Rightarrow>
             (Inr (), add_feedback self options saved_result (Note ''query results cached'') s1))
      else (Inr (), s))"

text \<open>\<^verbatim>\<open>"/".join(path.split("/")[:-1])\<close>: the path without its last component.\<close>

definition parent_path :: "string \<Rightarrow> string" where
  "parent_path path = rev (tl (dropWhile (\<lambda>c. c \<noteq> CHR ''/'') (rev path)))"

definition saved_feedback_step ::
  "kqlmagic \<Rightarrow> options \<Rightarrow> nat \<Rightarrow> string option \<Rightarrow> state \<Rightarrow> state" where
  "saved_feedback_step self options saved_result save_as_file_path s =
     (let s1 = (if opt_save_as options \<noteq> None
                then add_feedback self options saved_result
                       (Note (''query results saved as '' @ the save_as_file_path)) s
                else s)
      in if opt_save_to options \<noteq> None
         then add_feedback self options saved_result
                (Note (''query results saved to '' @ parent_path (the save_as_file_path))) s1
         else s1)"

text \<open>The decision between suppression, the success banner and inline display.\<close>

definition decide_display ::
  "kqlmagic \<Rightarrow> options \<Rightarrow> bool \<Rightarrow> nat \<Rightarrow> pyval \<Rightarrow> state \<Rightarrow> state" where
  "decide_display self options suppress_results saved_result result s =
     (let s1 = update_result_set saved_result
                 (\<lambda>rs. rs\<lparr>suppress_result := False, display_info := False\<rparr>) s
      in if result \<noteq> PyNone
         then
           (if suppress_results
            then update_result_set saved_result (\<lambda>rs. rs\<lparr>suppress_result := True\<rparr>) s1
            else if get_or (opt_auto_dataframe options) (auto_dataframe self)
            then emit (SuccessMessage (feedback_info (result_sets s1 saved_result))) s1
            else update_result_set saved_result (\<lambda>rs. rs\<lparr>display_info := True\<rparr>) s1)
         else s1)"

text \<open>
  The fork results, the rebinding of the last raw result variable, and the returned
  value. The test \<^verbatim>\<open>result == saved_result\<close> holds when \<^verbatim>\<open>result\<close> is still the
  object \<^verbatim>\<open>saved_result\<close> and fails when it is \<^verbatim>\<open>None\<close>; when \<^verbatim>\<open>result\<close> is a
  dataframe, the comparison is pandas' and taking its truth value raises.
\<close>

definition finish ::
  "env \<Rightarrow> kqlmagic \<Rightarrow> options \<Rightarrow> nat \<Rightarrow> nat \<Rightarrow> nat option \<Rightarrow> pyval \<Rightarrow> state
     \<Rightarrow> (exn + pyval) \<times> state" where
  "finish env self options saved_result fork_table_id1 result_set result s =
     (case (case result_set of
              None \<Rightarrow> create_fork_results_result env
            | Some r \<Rightarrow> update_fork_results_result env) of
        Some e \<Rightarrow> (Inl e, note_raise e s)
      | None \<Rightarrow>
          (let s1 = user_ns_update
                      [get_or (opt_last_raw_result_var options) (last_raw_result_var self)
                         \<mapsto> ResultSetRef saved_result] s
           in if result = ResultSetRef saved_result
              then raising (case fork_result_result env saved_result fork_table_id1 of
                              Inl e \<Rightarrow> Inl e
                            | Inr r \<Rightarrow> Inr (ResultSetRef r)) s1
              else (case result of
                      PyDataFrame d \<Rightarrow> raising (Inl (dataframe_comparison_error env)) s1
                    | other \<Rightarrow> (Inr result, s1))))"

text \<open>From \<^verbatim>\<open>result = saved_result\<close> to \<^verbatim>\<open>return result\<close>.\<close>

definition shape_result ::
  "env \<Rightarrow> kqlmagic \<Rightarrow> options \<Rightarrow> bool \<Rightarrow> string \<Rightarrow> nat option \<Rightarrow> string option \<Rightarrow> nat \<Rightarrow> nat
     \<Rightarrow> state \<Rightarrow> (exn + pyval) \<times> state" where
  "shape_result env self options suppress_results connection_string result_set save_as_file_path
       saved_result fork_table_id1 s =
     (let s1 = attach_metadata env self options connection_string suppress_results saved_result s;
          (result1, s2) = columns_to_local_vars_step self options saved_result
                            (ResultSetRef saved_result) s1;
          (result2, s3) = auto_dataframe_step self options saved_result result1 s2;
          (result3, s4) = result_var_step self options saved_result result_set result2 s3
      in case cache_step env self options saved_result s4 of
           (Inl e, s5) \<Rightarrow> (Inl e, s5)
         | (Inr u, s5) \<Rightarrow>
             finish env self options saved_result fork_table_id1 result_set result3
               (decide_display self options suppress_results saved_result result3
                  (saved_feedback_step self options saved_result save_as_file_path s5)))"

section \<open>execute_query\<close>

text \<open>
  The rest of the main block, from \<^verbatim>\<open>if not query\<close> on: without a query the
  connection information is shown and \<^verbatim>\<open>None\<close> returned, with a query it is submitted
  and its result shaped.
\<close>

definition answer_query ::
  "env \<Rightarrow> kqlmagic \<Rightarrow> parsed \<Rightarrow> bool \<Rightarrow> string \<Rightarrow> nat \<Rightarrow> string \<Rightarrow> nat option \<Rightarrow> state
     \<Rightarrow> (exn + pyval) \<times> state" where
  "answer_query env self parsed suppress_results query conn connection_string result_set =
     (let options = parsed_options parsed in
      if query = []
      then (\<lambda>s. (Inr PyNone,
              if connection_string = [] \<and> n_connections s > 0 \<and> \<not> suppress_results
              then show_connection_info env self (opt_show_conn_info options) s
              else s))
      else
        and_then (submit_query env options conn query result_set)
          (\<lambda>(parametrized_query1, raw_query_result, save_as_file_path).
        and_then (model_query_results env self parsed conn parametrized_query1
                    raw_query_result result_set)
          (\<lambda>(saved_result, fork_table_id1).
             shape_result env self options suppress_results connection_string
               result_set save_as_file_path saved_result fork_table_id1)))"

text \<open>
  The main \<^verbatim>\<open>try\<close> block. An exception leaves it together with the value the local
  variable \<^verbatim>\<open>connection_string\<close> has at that point, for the handler.
\<close>

definition execute_query_try ::
  "env \<Rightarrow> kqlmagic \<Rightarrow> parsed \<Rightarrow> bool \<Rightarrow> string \<Rightarrow> nat \<Rightarrow> string \<Rightarrow> nat option \<Rightarrow> state
     \<Rightarrow> ((exn \<times> string) + pyval) \<times> state" where
  "execute_query_try env self parsed suppress_results query conn connection_string result_set s =
     (let options = parsed_options parsed in
      case validate_connection env self options conn connection_string s of
        (Inl ex, s1) \<Rightarrow> (Inl ex, s1)
      | (Inr (conn1, connection_string1), s1) \<Rightarrow>
          (case
             and_then (schema_popup_and_help env self options conn1)
               (\<lambda>u. answer_query env self parsed suppress_results query conn1
                      connection_string1 result_set)
               s1
           of
             (Inl e, s3) \<Rightarrow> (Inl (e, connection_string1), s3)
           | (Inr result, s3) \<Rightarrow> (Inr result, s3)))"

text \<open>
  The first statement of \<^verbatim>\<open>execute_query\<close>: when \<^verbatim>\<open>Help_html.showfiles_base_url\<close> is
  still \<^verbatim>\<open>None\<close>, the notebook URL is handed to \<^verbatim>\<open>Help_html.flush\<close>, or asked for.
\<close>

definition flush_help :: "env \<Rightarrow> kqlmagic \<Rightarrow> namespace \<Rightarrow> state \<Rightarrow> state" where
  "flush_help env self user_ns s =
     (if showfiles_base_url env = None
      then (let window_location = get_or (user_ns ''NOTEBOOK_URL'') PyNone in
            if window_location \<noteq> PyNone then emit (HelpFlush window_location) s
            else submit_get_notebook_url self s)
      else s)"

text \<open>
  The local variable \<^verbatim>\<open>suppress_results\<close>, and the test
  \<^verbatim>\<open>options.get("short_errors", self.short_errors)\<close> of the three handlers.
\<close>

definition suppress_results_of :: "kqlmagic \<Rightarrow> options \<Rightarrow> bool" where
  "suppress_results_of self options =
     (get_or (opt_suppress_results options) False
      \<and> get_or (opt_enable_suppress_result options) (enable_suppress_result self))"

definition short_errors_of :: "kqlmagic \<Rightarrow> options \<Rightarrow> bool" where
  "short_errors_of self options = get_or (opt_short_errors options) (short_errors self)"

text \<open>
  \<^verbatim>\<open>execute_query(self, parsed, user_ns, result_set=None)\<close>. The result is the returned
  value, or the exception that leaves the method, and the state after the call.
\<close>

definition execute_query ::
  "env \<Rightarrow> kqlmagic \<Rightarrow> parsed \<Rightarrow> namespace \<Rightarrow> nat option \<Rightarrow> state \<Rightarrow> (exn + pyval) \<times> state" where
  "execute_query env self parsed user_ns result_set s =
     (let s0 = flush_help env self user_ns s;
          query = strip (parsed_query parsed);
          options = parsed_options parsed;
          suppress_results = suppress_results_of self options;
          connection_string = parsed_connection parsed
      in if query = [] \<and> connection_string = [] then (Inr PyNone, s0)
         else
           (case get_connection env connection_string s0 of
              (Inl e, s1) \<Rightarrow>
                (if kind e = KqlEngineError
                 then
                   (if short_errors_of self options
                    then (Inr PyNone,
                          emit (InfoMessage
                                  (''to get help on connection string formats, run: %kql --help ''
                                   @ [CHR 0x27] @ ''conn'' @ [CHR 0x27]))
                            (emit (DangerMessage (str e)) s1))
                    else (Inl e, s1))
                 else if kind e = ConnectionError
                 then
                   (if short_errors_of self options
                    then (Inr PyNone,
                          show_connection_info env self (Some ''list'')
                            (emit (DangerMessage (str e)) s1))
                    else (Inl e, s1))
                 else (Inl e, s1))
            | (Inr conn, s1) \<Rightarrow>
                (case execute_query_try env self parsed suppress_results query conn
                        connection_string result_set s1 of
                   (Inr result, s2) \<Rightarrow> (Inr result, s2)
                 | (Inl (e, connection_string1), s2) \<Rightarrow>
                     (let s3 = (if connection_string1 = [] \<and> n_connections s2 > 0
                                   \<and> \<not> suppress_results
                                then show_connection_info env self (opt_show_conn_info options) s2
                                else s2)
                      in if short_errors_of self options
                         then (Inr PyNone, emit (DangerMessage (str e)) s3)
                         else (Inl e, s3)))))"

text \<open>
  The queries of one process, one after the other on the state the previous one left.
  Each comes with its own instance configuration, parsed text, namespace and collaborator
  results.
\<close>

record invocation =
  inv_env :: env
  inv_self :: kqlmagic
  inv_parsed :: parsed
  inv_user_ns :: namespace
  inv_result_set :: "nat option"

fun execute_queries :: "invocation list \<Rightarrow> state \<Rightarrow> state" where
  "execute_queries [] s = s"
| "execute_queries (i # rest) s =
     execute_queries rest
       (snd (execute_query (inv_env i) (inv_self i) (inv_parsed i) (inv_user_ns i)
               (inv_result_set i) s))"

section \<open>A sample scenario\<close>

text \<open>
  One Kusto connection in the registry, a backend that answers every query with a table
  of two columns, and a parsed invocation with no option set. The witnesses and the
  evaluations below vary this scenario.
\<close>

definition sample_connection :: connection where
  "sample_connection =
     \<lparr> engine = KustoEngine, uri_schema_name = ''kusto'', cluster = ''help'',
       database = ''Samples'', conn_name = ''Samples@help'',
       validate_connection_string_done = False, auto_popup_schema_done = False,
       add_schema_to_help_done = False, validation_result = None \<rparr>"

definition sample_raw :: raw_result where
  "sample_raw =
     \<lparr> rr_columns = [(''a'', [''1'', ''2'']), (''b'', [''x'', ''y''])],
       rr_is_partial = False, rr_records_count = 2 \<rparr>"

definition sample_result_set :: result_set where
  "sample_result_set =
     \<lparr> rs_raw_query_result = sample_raw, parametrized_query = [], fork_table_id = 0,
       rs_options = no_options, metadata_magic = None, metadata_parsed = None,
       metadata_connection = None, metadata_conn_info = [], metadata_start_time = None,
       metadata_end_time = None, feedback_info = [], suppress_result = False,
       display_info = False \<rparr>"

definition sample_env :: env where
  "sample_env =
     \<lparr> showfiles_base_url = Some ''http://localhost:8888'',
       get_connection_result = (\<lambda>connection_string. Inr (Existing 0)),
       validate_result = (\<lambda>conn. None),
       get_schema_file_path_result = (\<lambda>k conn. Inr (Some ''schema.html'')),
       get_connection_list_formatted = (\<lambda>n cs. map (\<lambda>i. conn_name (cs i)) [0..<n]),
       get_current_connection_formatted = (\<lambda>n cs. conn_name (cs 0)),
       expand_result = (\<lambda>query. Inr query),
       execute_result = (\<lambda>conn query. Inr sample_raw),
       save_result = (\<lambda>target. Inr ''files/result.json''),
       start_time = 0, end_time = 5,
       fork_result_result = (\<lambda>r i. Inr r),
       update_result = None,
       create_fork_results_result = None,
       update_fork_results_result = None,
       dataframe_comparison_error =
         Exn OtherException ''The truth value of a DataFrame is ambiguous.'' \<rparr>"

definition sample_state :: state where
  "sample_state =
     \<lparr> n_connections = 1, connections = (\<lambda>i. sample_connection),
       n_result_sets = 0, result_sets = (\<lambda>i. sample_result_set),
       shell_user_ns = Map.empty, log = [], raised = [] \<rparr>"

definition sample_parsed :: parsed where
  "sample_parsed =
     \<lparr> parsed_query = ''T | take 2'', parsed_connection = [], parsed_options = no_options \<rparr>"

definition mfa_message_at_start :: string where
  "mfa_message_at_start = ''AADSTS50079: you must use multi-factor authentication''"

definition mfa_message :: string where
  "mfa_message = ''Error AADSTS50079: you must use multi-factor authentication''"

definition failing_validation :: "string \<Rightarrow> env" where
  "failing_validation msg =
     sample_env\<lparr>validate_result := (\<lambda>conn. Some (Exn OtherException msg))\<rparr>"

text \<open>Invocations that set options, and a backend whose table has a column of a special name.\<close>

definition columns_parsed :: parsed where
  "columns_parsed =
     sample_parsed\<lparr>parsed_options := no_options\<lparr>opt_columns_to_local_vars := Some True\<rparr>\<rparr>"

definition dataframe_parsed :: "string \<Rightarrow> parsed" where
  "dataframe_parsed x =
     sample_parsed\<lparr>parsed_options :=
       no_options\<lparr>opt_auto_dataframe := Some True, opt_result_var := Some x\<rparr>\<rparr>"

definition clash_raw :: raw_result where
  "clash_raw =
     \<lparr> rr_columns = [(''_kql_raw_result_'', [''1'', ''2''])],
       rr_is_partial = False, rr_records_count = 2 \<rparr>"

definition clash_env :: env where
  "clash_env = sample_env\<lparr>execute_result := (\<lambda>conn query. Inr clash_raw)\<rparr>"

text \<open>
  Invocations for the schema actions: one asks for the popup, one asks for the help-menu
  entry, one asks for both; a collaborator that has no schema file to offer; and the
  sample scenario as one invocation of a sequence.
\<close>

definition popup_parsed :: parsed where
  "popup_parsed =
     sample_parsed\<lparr>parsed_options := no_options\<lparr>opt_popup_schema := Some True\<rparr>\<rparr>"

definition help_parsed :: parsed where
  "help_parsed =
     sample_parsed\<lparr>parsed_options := no_options\<lparr>opt_add_schema_to_help := Some True\<rparr>\<rparr>"

definition popup_help_parsed :: parsed where
  "popup_help_parsed =
     sample_parsed\<lparr>parsed_options :=
       no_options\<lparr>opt_popup_schema := Some True, opt_add_schema_to_help := Some True\<rparr>\<rparr>"

definition no_schema_env :: env where
  "no_schema_env = sample_env\<lparr>get_schema_file_path_result := (\<lambda>k conn. Inr None)\<rparr>"

definition sample_invocation :: "parsed \<Rightarrow> invocation" where
  "sample_invocation p =
     \<lparr> inv_env = sample_env, inv_self = default_kqlmagic, inv_parsed = p,
       inv_user_ns = Map.empty, inv_result_set = None \<rparr>"

text \<open>
  A backend whose \<^verbatim>\<open>execute\<close> raises; and a registry whose \<^verbatim>\<open>get_connection\<close> raises
  an exception of the given class.
\<close>

definition failing_backend :: "string \<Rightarrow> env" where
  "failing_backend msg =
     sample_env\<lparr>execute_result := (\<lambda>conn query. Inl (Exn OtherException msg))\<rparr>"

definition unresolved_env :: "exn_kind \<Rightarrow> string \<Rightarrow> env" where
  "unresolved_env k msg =
     sample_env\<lparr>get_connection_result := (\<lambda>connection_string. Inl (Exn k msg))\<rparr>"

section \<open>Reading the trace\<close>

text \<open>The kinds of events the properties below count.\<close>

fun is_connection_info :: "event \<Rightarrow> bool" where
  "is_connection_info (ConnectionInfoMessage msg) = True"
| "is_connection_info ev = False"

fun is_validate :: "event \<Rightarrow> bool" where
  "is_validate (Validate conn) = True"
| "is_validate ev = False"

fun is_popup_schema :: "nat \<Rightarrow> event \<Rightarrow> bool" where
  "is_popup_schema c (PopupSchema path conn) = (conn = c)"
| "is_popup_schema c ev = False"

fun is_add_menu_item :: "nat \<Rightarrow> event \<Rightarrow> bool" where
  "is_add_menu_item c (AddMenuItem conn name path) = (conn = c)"
| "is_add_menu_item c ev = False"

text \<open>
  The events of the one-time connection setup: validation and the schema actions. The
  rest of an invocation (submitting the query and shaping the result) emits none of them.
\<close>

fun is_setup_event :: "event \<Rightarrow> bool" where
  "is_setup_event (Validate conn) = True"
| "is_setup_event (GetConnection connection_string) = True"
| "is_setup_event (GetSchemaFilePath conn) = True"
| "is_setup_event (PopupSchema path conn) = True"
| "is_setup_event (AddMenuItem conn name path) = True"
| "is_setup_event ev = False"

definition setup_trace :: "state \<Rightarrow> event list" where
  "setup_trace s = filter is_setup_event (log s)"

text \<open>
  Counts over the trace: the validation probes made so far, and the schema popups shown
  and the help-menu entries registered for a connection.
\<close>

definition probes :: "state \<Rightarrow> event list" where
  "probes s = filter is_validate (log s)"

definition popups :: "nat \<Rightarrow> state \<Rightarrow> nat" where
  "popups c s = length (filter (is_popup_schema c) (log s))"

definition menu_items :: "nat \<Rightarrow> state \<Rightarrow> nat" where
  "menu_items c s = length (filter (is_add_menu_item c) (log s))"

text \<open>
  What a connection may still reach: the popups it has had, and one more while its flag
  \<open>auto_popup_schema_done\<close> is unset; likewise for the help-menu entries.
\<close>

definition popup_budget :: "nat \<Rightarrow> state \<Rightarrow> nat" where
  "popup_budget c s =
     popups c s + (if auto_popup_schema_done (connections s c) then 0 else 1)"

definition menu_budget :: "nat \<Rightarrow> state \<Rightarrow> nat" where
  "menu_budget c s =
     menu_items c s + (if add_schema_to_help_done (connections s c) then 0 else 1)"

text \<open>
  Two relations between the state before and after a piece of an invocation, for a
  connection \<open>c\<close>. \<open>setup_kept\<close>: the piece displays no schema and registers none,
  computes no schema path, and leaves the flags of \<open>c\<close> as they are, but for setting
  \<open>validate_connection_string_done\<close>. \<open>within_budget k\<close>: the piece stays within the
  budgets of \<open>c\<close>, but for \<open>k\<close> popups more, and unsets no flag that it finds set.
\<close>

definition setup_kept :: "nat \<Rightarrow> state \<Rightarrow> state \<Rightarrow> bool" where
  "setup_kept c s s1 =
     (n_connections s \<le> n_connections s1
      \<and> popups c s1 = popups c s
      \<and> menu_items c s1 = menu_items c s
      \<and> schema_path_calls s1 = schema_path_calls s
      \<and> (c < n_connections s \<longrightarrow>
           auto_popup_schema_done (connections s1 c) = auto_popup_schema_done (connections s c)
           \<and> add_schema_to_help_done (connections s1 c) = add_schema_to_help_done (connections s c)
           \<and> (validate_connection_string_done (connections s c)
                \<longrightarrow> validate_connection_string_done (connections s1 c))))"

definition within_budget :: "nat \<Rightarrow> nat \<Rightarrow> state \<Rightarrow> state \<Rightarrow> bool" where
  "within_budget k c s s1 =
     (n_connections s \<le> n_connections s1
      \<and> (c < n_connections s \<longrightarrow>
           popup_budget c s1 \<le> popup_budget c s + k
           \<and> (auto_popup_schema_done (connections s c)
                \<longrightarrow> auto_popup_schema_done (connections s1 c))
           \<and> menu_budget c s1 \<le> menu_budget c s
           \<and> (validate_connection_string_done (connections s c)
                \<longrightarrow> validate_connection_string_done (connections s1 c))))"

text \<open>
  An invocation that asks for the schema popup with the option \<open>popup_schema\<close>; and, for a
  sequence of invocations run from \<open>s\<close>, the popups of the schema of \<open>c\<close> that the other
  invocations of the sequence show: the automatic ones.
\<close>

definition explicit_popup :: "invocation \<Rightarrow> bool" where
  "explicit_popup i = get_or (opt_popup_schema (parsed_options (inv_parsed i))) False"

fun automatic_popups :: "nat \<Rightarrow> invocation list \<Rightarrow> state \<Rightarrow> nat" where
  "automatic_popups c [] s = 0"
| "automatic_popups c (i # rest) s =
     (let s1 = snd (execute_query (inv_env i) (inv_self i) (inv_parsed i) (inv_user_ns i)
                      (inv_result_set i) s)
      in (if explicit_popup i then 0 else popups c s1 - popups c s)
         + automatic_popups c rest s1)"

text \<open>
  The exceptions a result stands for; and the exception that the main block recovers
  from by itself: the one the first probe of a connection raises when it carries the
  signature that the retry answers.
\<close>

definition raised_of :: "exn + 'a \<Rightarrow> exn list" where
  "raised_of r = (case r of Inl e \<Rightarrow> [e] | Inr a \<Rightarrow> [])"


text \<open>
  Two views of the state. The setup view is what validation and the schema actions work
  on: their events, and the connection objects. The data view is what shaping works on:
  the \<^verbatim>\<open>ResultSet\<close> objects and the namespace.
\<close>

definition setup_view :: "state \<Rightarrow> event list \<times> nat \<times> (nat \<Rightarrow> connection)" where
  "setup_view s = (setup_trace s, n_connections s, connections s)"

definition data_view :: "state \<Rightarrow> nat \<times> (nat \<Rightarrow> result_set) \<times> namespace" where
  "data_view s = (n_result_sets s, result_sets s, shell_user_ns s)"

text \<open>The raw result each \<^verbatim>\<open>ResultSet\<close> object holds.\<close>

definition raw_results :: "state \<Rightarrow> nat \<Rightarrow> raw_result" where
  "raw_results s r = rs_raw_query_result (result_sets s r)"

section \<open>Properties of the cache commands\<close>

text \<open>
  Claim C10. For every parameter \<open>cache_name\<close>, \<^verbatim>\<open>execute_use_cache_command\<close> leaves
  the \<open>use_cache\<close> attribute of the instance as it was. The only attribute it assigns is
  \<open>cache\<close>: it becomes \<open>cache_name\<close> when \<open>cache_name\<close> is a non-empty string other than
  \<^verbatim>\<open>"None"\<close>, and \<^verbatim>\<open>None\<close> otherwise. Every other trait keeps its value too, which
  the last conjunct states by comparing the instances after \<open>cache\<close> is overwritten.
\<close>

theorem use_cache_command_keeps_use_cache:
  "use_cache (snd (execute_use_cache_command package_name cache_name self)) = use_cache self
   \<and> cache (snd (execute_use_cache_command package_name cache_name self)) =
       (if cache_name \<noteq> None \<and> cache_name \<noteq> Some ''None'' \<and> cache_name \<noteq> Some ''''
        then cache_name else None)
   \<and> (snd (execute_use_cache_command package_name cache_name self))\<lparr>cache := None\<rparr>
       = self\<lparr>cache := None\<rparr>"
  by (cases cache_name) (simp_all add: execute_use_cache_command_def Let_def)

section \<open>Frame lemmas\<close>

subsection \<open>The primitive state updates\<close>

lemma emit_simps [simp]:
  "log (emit ev s) = log s @ [ev]"
  "connections (emit ev s) = connections s"
  "n_connections (emit ev s) = n_connections s"
  "result_sets (emit ev s) = result_sets s"
  "n_result_sets (emit ev s) = n_result_sets s"
  "shell_user_ns (emit ev s) = shell_user_ns s"
  "raised (emit ev s) = raised s"
  by (simp_all add: emit_def)

lemma note_raise_simps [simp]:
  "log (note_raise e s) = log s"
  "connections (note_raise e s) = connections s"
  "n_connections (note_raise e s) = n_connections s"
  "result_sets (note_raise e s) = result_sets s"
  "n_result_sets (note_raise e s) = n_result_sets s"
  "shell_user_ns (note_raise e s) = shell_user_ns s"
  "raised (note_raise e s) = raised s @ [e]"
  by (simp_all add: note_raise_def)

lemma raising_simps [simp]:
  "fst (raising r s) = r"
  "log (snd (raising r s)) = log s"
  "connections (snd (raising r s)) = connections s"
  "n_connections (snd (raising r s)) = n_connections s"
  "result_sets (snd (raising r s)) = result_sets s"
  "n_result_sets (snd (raising r s)) = n_result_sets s"
  "shell_user_ns (snd (raising r s)) = shell_user_ns s"
  "raised (snd (raising r s)) = raised s @ (case r of Inl e \<Rightarrow> [e] | Inr a \<Rightarrow> [])"
  by (cases r; simp add: raising_def)+

lemma raising_Inr [simp]: "raising (Inr a) s = (Inr a, s)"
  by (simp add: raising_def)

lemma raising_Inl [simp]: "raising (Inl e) s = (Inl e, note_raise e s)"
  by (simp add: raising_def)

lemma update_connection_simps [simp]:
  "log (update_connection c f s) = log s"
  "connections (update_connection c f s) = (connections s)(c := f (connections s c))"
  "n_connections (update_connection c f s) = n_connections s"
  "result_sets (update_connection c f s) = result_sets s"
  "n_result_sets (update_connection c f s) = n_result_sets s"
  "shell_user_ns (update_connection c f s) = shell_user_ns s"
  "raised (update_connection c f s) = raised s"
  by (simp_all add: update_connection_def)

lemma update_result_set_simps [simp]:
  "log (update_result_set r f s) = log s"
  "connections (update_result_set r f s) = connections s"
  "n_connections (update_result_set r f s) = n_connections s"
  "result_sets (update_result_set r f s) = (result_sets s)(r := f (result_sets s r))"
  "n_result_sets (update_result_set r f s) = n_result_sets s"
  "shell_user_ns (update_result_set r f s) = shell_user_ns s"
  "raised (update_result_set r f s) = raised s"
  by (simp_all add: update_result_set_def)

lemma user_ns_update_simps [simp]:
  "log (user_ns_update d s) = log s"
  "connections (user_ns_update d s) = connections s"
  "n_connections (user_ns_update d s) = n_connections s"
  "result_sets (user_ns_update d s) = result_sets s"
  "n_result_sets (user_ns_update d s) = n_result_sets s"
  "shell_user_ns (user_ns_update d s) = shell_user_ns s ++ d"
  "raised (user_ns_update d s) = raised s"
  by (simp_all add: user_ns_update_def)

lemma setup_trace_simps [simp]:
  "setup_trace (emit ev s) = (if is_setup_event ev then setup_trace s @ [ev] else setup_trace s)"
  "setup_trace (update_connection c f s) = setup_trace s"
  "setup_trace (update_result_set r g s) = setup_trace s"
  "setup_trace (user_ns_update d s) = setup_trace s"
  "setup_trace (note_raise e s) = setup_trace s"
  "setup_trace (snd (raising rr s)) = setup_trace s"
  by (simp_all add: setup_trace_def)

lemma setup_view_simps [simp]:
  "\<not> is_setup_event ev \<Longrightarrow> setup_view (emit ev s) = setup_view s"
  "setup_view (update_result_set r g s) = setup_view s"
  "setup_view (user_ns_update d s) = setup_view s"
  "setup_view (note_raise e s) = setup_view s"
  "setup_view (snd (raising rr s)) = setup_view s"
  by (simp_all add: setup_view_def)

lemma data_view_simps [simp]:
  "data_view (emit ev s) = data_view s"
  "data_view (update_connection c f s) = data_view s"
  "data_view (note_raise e s) = data_view s"
  "data_view (snd (raising rr s)) = data_view s"
  by (simp_all add: data_view_def)

lemma and_then_keeps:
  assumes "\<And>s. view (snd (m s)) = view s" and "\<And>a s. view (snd (f a s)) = view s"
  shows "view (snd (and_then m f s)) = view s"
proof (cases "m s")
  case (Pair r s1)
  have "view s1 = view s" using assms(1) [of s] Pair by simp
  then show ?thesis using Pair assms(2) by (cases r) (simp_all add: and_then_def)
qed

subsection \<open>Submitting and shaping leave the setup alone\<close>

lemma save_setup [simp]: "setup_view (snd (save env target s)) = setup_view s"
  by (simp add: save_def)

lemma submit_query_setup [simp]:
  "setup_view (snd (submit_query env options conn query result_set s)) = setup_view s"
  unfolding submit_query_def
  by (intro and_then_keeps) (simp_all split: option.splits add: and_then_keeps)

lemma model_query_results_setup [simp]:
  "setup_view (snd (model_query_results env self parsed conn pq raw result_set s)) = setup_view s"
  by (simp add: model_query_results_def Let_def setup_view_def setup_trace_def split: option.splits sum.splits)

lemma add_feedback_setup [simp]:
  "setup_view (add_feedback self options saved item s) = setup_view s"
  by (simp add: add_feedback_def)

lemma attach_metadata_setup [simp]:
  "setup_view (attach_metadata env self options cs suppress saved s) = setup_view s"
  by (simp add: attach_metadata_def Let_def)

lemma columns_step_setup [simp]:
  "setup_view (snd (columns_to_local_vars_step self options saved result s)) = setup_view s"
  by (simp add: columns_to_local_vars_step_def Let_def)

lemma dataframe_step_setup [simp]:
  "setup_view (snd (auto_dataframe_step self options saved result s)) = setup_view s"
  by (simp add: auto_dataframe_step_def Let_def)

lemma result_var_step_setup [simp]:
  "setup_view (snd (result_var_step self options saved result_set result s)) = setup_view s"
  by (simp add: result_var_step_def Let_def)

lemma cache_step_setup [simp]:
  "setup_view (snd (cache_step env self options saved s)) = setup_view s"
proof (cases "save env CacheFolder s")
  case (Pair r s1)
  then have "setup_view s1 = setup_view s" using save_setup [of env CacheFolder s] by simp
  then show ?thesis using Pair by (cases r) (simp_all add: cache_step_def)
qed

lemma saved_feedback_step_setup [simp]:
  "setup_view (saved_feedback_step self options saved path s) = setup_view s"
  by (simp add: saved_feedback_step_def Let_def)

lemma decide_display_setup [simp]:
  "setup_view (decide_display self options suppress saved result s) = setup_view s"
  by (simp add: decide_display_def Let_def)

lemma finish_setup [simp]:
  "setup_view (snd (finish env self options saved ftid result_set result s)) = setup_view s"
  by (simp add: finish_def Let_def split: option.splits sum.splits pyval.splits)

lemma shape_result_setup [simp]:
  "setup_view (snd (shape_result env self options suppress cs result_set path saved ftid s)) = setup_view s"
proof -
  obtain r1 s2 where a: "columns_to_local_vars_step self options saved (ResultSetRef saved)
      (attach_metadata env self options cs suppress saved s) = (r1, s2)" by (cases "columns_to_local_vars_step self options saved (ResultSetRef saved)
      (attach_metadata env self options cs suppress saved s)")
  obtain r2 s3 where b: "auto_dataframe_step self options saved r1 s2 = (r2, s3)"
    by (cases "auto_dataframe_step self options saved r1 s2")
  obtain r3 s4 where c: "result_var_step self options saved result_set r2 s3 = (r3, s4)"
    by (cases "result_var_step self options saved result_set r2 s3")
  obtain r4 s5 where d: "cache_step env self options saved s4 = (r4, s5)"
    by (cases "cache_step env self options saved s4")
  have "setup_view s2 = setup_view s"
    using columns_step_setup [of self options saved "ResultSetRef saved" "attach_metadata env self options cs suppress saved s"] a by simp 
  moreover have "setup_view s3 = setup_view s2" using dataframe_step_setup [of self options saved r1 s2] b by simp
  moreover have "setup_view s4 = setup_view s3" using result_var_step_setup [of self options saved result_set r2 s3] c by simp
  moreover have "setup_view s5 = setup_view s4" using cache_step_setup [of env self options saved s4] d by simp
  ultimately have "setup_view s5 = setup_view s" by simp
  then show ?thesis
    using a b c d by (cases r4) (simp_all add: shape_result_def Let_def)
qed

subsection \<open>Setup leaves the data alone\<close>

lemma flush_help_data [simp]: "data_view (flush_help env self user_ns s) = data_view s"
  by (simp add: flush_help_def submit_get_notebook_url_def Let_def)

lemma show_connection_info_data [simp]:
  "data_view (show_connection_info env self mode s) = data_view s"
  by (simp add: show_connection_info_def Let_def)

lemma get_connection_data [simp]:
  "data_view (snd (get_connection env connection_string s)) = data_view s"
  by (simp add: get_connection_def Let_def data_view_def split: sum.splits resolution.splits)

lemma validate_data [simp]: "data_view (snd (validate env conn s)) = data_view s"
  by (simp add: validate_def Let_def split: option.splits)

lemma set_validation_result_data [simp]: "data_view (set_validation_result conn b s) = data_view s"
  by (simp add: set_validation_result_def)

lemma get_schema_file_path_data [simp]:
  "data_view (snd (get_schema_file_path env conn s)) = data_view s"
  by (simp add: get_schema_file_path_def)

lemma retry_with_code_data [simp]:
  "data_view (snd (retry_with_code env conn s)) = data_view s"
proof -
  let ?s1 = "emit (InfoMessage ''replaced connection with code authentication'') s"
  let ?cs = "code_connection_string (connections ?s1 conn)"
  obtain r s2 where a: "get_connection env ?cs ?s1 = (r, s2)" by (cases "get_connection env ?cs ?s1")
  have s2: "data_view s2 = data_view s"
    using arg_cong [OF a, of "\<lambda>p. data_view (snd p)"] by simp
  show ?thesis
  proof (cases r)
    case (Inl e)
    then show ?thesis using a s2 by (simp add: retry_with_code_def Let_def)
  next
    case (Inr conn2)
    obtain v s3 where b: "validate env conn2 s2 = (v, s3)" by (cases "validate env conn2 s2")
    have "data_view s3 = data_view s"
      using arg_cong [OF b, of "\<lambda>p. data_view (snd p)"] s2 by simp
    then show ?thesis using a b Inr by (cases v) (simp_all add: retry_with_code_def Let_def)
  qed
qed

lemma validate_connection_data [simp]:
  "data_view (snd (validate_connection env self options conn connection_string s)) = data_view s"
proof -
  obtain v s1 where a: "validate env conn s = (v, s1)" by (cases "validate env conn s")
  have s1: "data_view s1 = data_view s"
    using arg_cong [OF a, of "\<lambda>p. data_view (snd p)"] by simp
  obtain r s2 where b: "retry_with_code env conn (emit (DangerMessage (str (the v))) s1) = (r, s2)"
    by (cases "retry_with_code env conn (emit (DangerMessage (str (the v))) s1)")
  have s2: "data_view s2 = data_view s"
    using arg_cong [OF b, of "\<lambda>p. data_view (snd p)"] s1 by simp
  show ?thesis
    using a b s1 s2
    by (cases v; cases r) (auto simp add: validate_connection_def split: prod.splits)
qed

lemma schema_popup_and_help_data [simp]:
  "data_view (snd (schema_popup_and_help env self options conn s)) = data_view s"
  by (simp add: schema_popup_and_help_def get_schema_file_path_def raising_def Let_def
      split: sum.splits prod.splits)

lemma save_data [simp]: "data_view (snd (save env target s)) = data_view s"
  by (simp add: save_def)

lemma submit_query_data [simp]:
  "data_view (snd (submit_query env options conn query result_set s)) = data_view s"
  unfolding submit_query_def
  by (intro and_then_keeps) (simp_all split: option.splits add: and_then_keeps)


subsection \<open>What shaping does to the namespace\<close>

lemma raw_results_simps [simp]:
  "raw_results (emit ev s) = raw_results s"
  "raw_results (update_connection c f s) = raw_results s"
  "raw_results (user_ns_update d s) = raw_results s"
  "raw_results (note_raise e s) = raw_results s"
  "raw_results (snd (raising rr s)) = raw_results s"
  by (simp_all add: raw_results_def fun_eq_iff)

lemma data_view_eqD:
  assumes "data_view s1 = data_view s"
  shows "n_result_sets s1 = n_result_sets s" and "result_sets s1 = result_sets s"
    and "shell_user_ns s1 = shell_user_ns s" and "raw_results s1 = raw_results s"
  using assms by (simp_all add: data_view_def raw_results_def fun_eq_iff)

lemma to_dict_raw:
  "raw_results s1 r = raw_results s r \<Longrightarrow> to_dict (result_sets s1 r) = to_dict (result_sets s r)"
  by (simp add: to_dict_def raw_results_def)

lemma to_dataframe_raw:
  "raw_results s1 r = raw_results s r
   \<Longrightarrow> to_dataframe (result_sets s1 r) = to_dataframe (result_sets s r)"
  by (simp add: to_dataframe_def raw_results_def)

lemma update_result_set_raw [simp]:
  "rs_raw_query_result (f (result_sets s r)) = rs_raw_query_result (result_sets s r)
   \<Longrightarrow> raw_results (update_result_set r f s) = raw_results s"
  by (simp add: raw_results_def fun_eq_iff)

lemma add_feedback_data [simp]:
  "shell_user_ns (add_feedback self options saved item s) = shell_user_ns s"
  "raw_results (add_feedback self options saved item s) = raw_results s"
  by (simp_all add: add_feedback_def)

lemma attach_metadata_data [simp]:
  "shell_user_ns (attach_metadata env self options cs suppress saved s) = shell_user_ns s"
  "raw_results (attach_metadata env self options cs suppress saved s) = raw_results s"
  by (simp_all add: attach_metadata_def Let_def)

lemma columns_step_result:
  assumes "columns_to_local_vars_step self options saved result s = (r1, s1)"
  shows "r1 = (if get_or (opt_columns_to_local_vars options) (columns_to_local_vars self)
               then PyNone else result)"
    and "shell_user_ns s1 =
           (if get_or (opt_columns_to_local_vars options) (columns_to_local_vars self)
            then shell_user_ns s ++ to_dict (result_sets s saved) else shell_user_ns s)"
    and "raw_results s1 = raw_results s"
  using assms to_dict_raw [of "add_feedback self options saved
      (Note ''Returning raw data to local variables'') s" saved s]
  by (auto simp add: columns_to_local_vars_step_def Let_def split: if_splits)

lemma dataframe_step_result:
  assumes "auto_dataframe_step self options saved result s = (r1, s1)"
  shows "r1 = (if get_or (opt_auto_dataframe options) (auto_dataframe self)
               then PyDataFrame (to_dataframe (result_sets s saved)) else result)"
    and "shell_user_ns s1 = shell_user_ns s"
    and "raw_results s1 = raw_results s"
  using assms to_dataframe_raw [of "add_feedback self options saved
      (Note ''Returning data converted to pandas dataframe'') s" saved s]
  by (auto simp add: auto_dataframe_step_def Let_def split: if_splits)

lemma result_var_step_result:
  assumes "result_var_step self options saved result_set result s = (r1, s1)"
  shows "r1 = (if truthy (opt_result_var options) \<and> result_set = None then PyNone else result)"
    and "shell_user_ns s1 =
           (if truthy (opt_result_var options) \<and> result_set = None
            then (shell_user_ns s)(the (opt_result_var options) \<mapsto>
                   (if result \<noteq> PyNone then result else ResultSetRef saved))
            else shell_user_ns s)"
    and "raw_results s1 = raw_results s"
  using assms by (auto simp add: result_var_step_def Let_def split: if_splits)

lemma cache_step_result:
  assumes "cache_step env self options saved s = (r1, s1)"
  shows "shell_user_ns s1 = shell_user_ns s" and "raw_results s1 = raw_results s"
  using assms by (auto simp add: cache_step_def save_def raising_def split: sum.splits if_splits)

lemma saved_feedback_step_data [simp]:
  "shell_user_ns (saved_feedback_step self options saved path s) = shell_user_ns s"
  "raw_results (saved_feedback_step self options saved path s) = raw_results s"
  by (simp_all add: saved_feedback_step_def Let_def)

lemma decide_display_data [simp]:
  "shell_user_ns (decide_display self options suppress saved result s) = shell_user_ns s"
  "raw_results (decide_display self options suppress saved result s) = raw_results s"
  by (simp_all add: decide_display_def Let_def)

lemma finish_success:
  assumes "finish env self options saved ftid result_set result s = (Inr v, s1)"
  shows "shell_user_ns s1 =
           (shell_user_ns s)(get_or (opt_last_raw_result_var options) (last_raw_result_var self)
              \<mapsto> ResultSetRef saved)"
    and "raw_results s1 = raw_results s"
    and "result \<noteq> ResultSetRef saved \<Longrightarrow> v = result"
  using assms
  by (auto simp add: finish_def Let_def raising_def split: option.splits sum.splits if_splits pyval.splits)

lemma shape_result_success:
  assumes "shape_result env self options suppress cs result_set path saved ftid s = (Inr v, s1)"
  shows "shell_user_ns s1 =
           (shell_user_ns s
              ++ (if get_or (opt_columns_to_local_vars options) (columns_to_local_vars self)
                  then to_dict (result_sets s saved) else Map.empty)
              ++ (if truthy (opt_result_var options) \<and> result_set = None
                  then [the (opt_result_var options) \<mapsto>
                         (if get_or (opt_auto_dataframe options) (auto_dataframe self)
                          then PyDataFrame (to_dataframe (result_sets s saved))
                          else ResultSetRef saved)]
                  else Map.empty))
           (get_or (opt_last_raw_result_var options) (last_raw_result_var self)
              \<mapsto> ResultSetRef saved)"
    and "raw_results s1 = raw_results s"
    and "(truthy (opt_result_var options) \<and> result_set = None)
         \<or> (get_or (opt_columns_to_local_vars options) (columns_to_local_vars self)
             \<and> \<not> get_or (opt_auto_dataframe options) (auto_dataframe self))
         \<Longrightarrow> v = PyNone"
proof -
  let ?s1 = "attach_metadata env self options cs suppress saved s"
  obtain r1 s2 where a: "columns_to_local_vars_step self options saved (ResultSetRef saved) ?s1 = (r1, s2)"
    by (cases "columns_to_local_vars_step self options saved (ResultSetRef saved) ?s1")
  obtain r2 s3 where b: "auto_dataframe_step self options saved r1 s2 = (r2, s3)"
    by (cases "auto_dataframe_step self options saved r1 s2")
  obtain r3 s4 where c: "result_var_step self options saved result_set r2 s3 = (r3, s4)"
    by (cases "result_var_step self options saved result_set r2 s3")
  obtain r4 s5 where d: "cache_step env self options saved s4 = (r4, s5)"
    by (cases "cache_step env self options saved s4")
  let ?s6 = "decide_display self options suppress saved r3
               (saved_feedback_step self options saved path s5)"
  from assms a b c d have fin: "finish env self options saved ftid result_set r3 ?s6 = (Inr v, s1)"
    by (cases r4) (simp_all add: shape_result_def Let_def)
  have raw2: "raw_results s2 = raw_results s"
    using columns_step_result(3) [OF a] by simp
  have dict: "to_dict (result_sets ?s1 saved) = to_dict (result_sets s saved)"
    by (rule to_dict_raw) simp
  have frame: "to_dataframe (result_sets s2 saved) = to_dataframe (result_sets s saved)"
    by (rule to_dataframe_raw) (simp add: raw2)
  have r1: "r1 = (if get_or (opt_columns_to_local_vars options) (columns_to_local_vars self)
                  then PyNone else ResultSetRef saved)"
    using columns_step_result(1) [OF a] .
  have ns2: "shell_user_ns s2 =
      (if get_or (opt_columns_to_local_vars options) (columns_to_local_vars self)
       then shell_user_ns s ++ to_dict (result_sets s saved) else shell_user_ns s)"
    using columns_step_result(2) [OF a] dict by simp
  have r2: "r2 = (if get_or (opt_auto_dataframe options) (auto_dataframe self)
                  then PyDataFrame (to_dataframe (result_sets s saved)) else r1)"
    using dataframe_step_result(1) [OF b] frame by simp
  have ns3: "shell_user_ns s3 = shell_user_ns s2"
    using dataframe_step_result(2) [OF b] .
  have raw3: "raw_results s3 = raw_results s"
    using dataframe_step_result(3) [OF b] raw2 by simp
  have r3: "r3 = (if truthy (opt_result_var options) \<and> result_set = None then PyNone else r2)"
    using result_var_step_result(1) [OF c] .
  have ns4: "shell_user_ns s4 =
      (if truthy (opt_result_var options) \<and> result_set = None
       then (shell_user_ns s3)(the (opt_result_var options) \<mapsto>
              (if r2 \<noteq> PyNone then r2 else ResultSetRef saved))
       else shell_user_ns s3)"
    using result_var_step_result(2) [OF c] .
  have raw4: "raw_results s4 = raw_results s"
    using result_var_step_result(3) [OF c] raw3 by simp
  have ns5: "shell_user_ns s5 = shell_user_ns s4"
    using cache_step_result(1) [OF d] .
  have raw5: "raw_results s5 = raw_results s"
    using cache_step_result(2) [OF d] raw4 by simp
  have ns6: "shell_user_ns ?s6 = shell_user_ns s4" using ns5 by simp
  have raw6: "raw_results ?s6 = raw_results s" using raw5 by simp
  show "raw_results s1 = raw_results s"
    using finish_success(2) [OF fin] raw6 by simp
  show "shell_user_ns s1 =
           (shell_user_ns s
              ++ (if get_or (opt_columns_to_local_vars options) (columns_to_local_vars self)
                  then to_dict (result_sets s saved) else Map.empty)
              ++ (if truthy (opt_result_var options) \<and> result_set = None
                  then [the (opt_result_var options) \<mapsto>
                         (if get_or (opt_auto_dataframe options) (auto_dataframe self)
                          then PyDataFrame (to_dataframe (result_sets s saved))
                          else ResultSetRef saved)]
                  else Map.empty))
           (get_or (opt_last_raw_result_var options) (last_raw_result_var self)
              \<mapsto> ResultSetRef saved)"
    unfolding finish_success(1) [OF fin] ns6 ns4 ns3 ns2 r2 r1 by simp
  show "v = PyNone"
    if "(truthy (opt_result_var options) \<and> result_set = None)
         \<or> (get_or (opt_columns_to_local_vars options) (columns_to_local_vars self)
             \<and> \<not> get_or (opt_auto_dataframe options) (auto_dataframe self))"
  proof -
    from that have "r3 = PyNone" unfolding r3 r2 r1 by auto
    then show ?thesis using finish_success(3) [OF fin] by simp
  qed
qed

subsection \<open>A completed main block ends in shaping\<close>

lemma submit_query_success:
  assumes "submit_query env options conn query result_set s = (Inr (pq, raw, path), s1)"
  shows "execute_result env conn pq = Inr raw"
  using assms
  by (auto simp add: submit_query_def and_then_def save_def raising_def split: option.splits sum.splits)

lemma model_query_results_success:
  assumes "model_query_results env self parsed conn pq raw result_set s = (Inr (saved, ftid), s1)"
  shows "shell_user_ns s1 = shell_user_ns s"
    and "raw_results s1 saved = raw"
    and "result_set = None \<Longrightarrow> saved = n_result_sets s \<and> n_result_sets s1 = Suc saved"
    and "result_set = Some r \<Longrightarrow> fork_result_result env r 0 = Inr saved"
  using assms
  by (auto simp add: model_query_results_def Let_def raw_results_def
      split: option.splits sum.splits)

lemma execute_query_try_success:
  assumes "execute_query_try env self parsed suppress query conn cs result_set s = (Inr v, s3)"
    and "query \<noteq> []"
  obtains conn1 cs1 pq raw path saved ftid s2 where
    "shape_result env self (parsed_options parsed) suppress cs1 result_set path saved ftid s2
       = (Inr v, s3)"
    and "shell_user_ns s2 = shell_user_ns s"
    and "raw_results s2 saved = raw"
    and "execute_result env conn1 pq = Inr raw"
    and "result_set = None \<Longrightarrow> saved = n_result_sets s"
    and "\<And>r. result_set = Some r \<Longrightarrow> fork_result_result env r 0 = Inr saved"
proof -
  let ?options = "parsed_options parsed"
  obtain rv sa where a: "validate_connection env self ?options conn cs s = (rv, sa)"
    by (cases "validate_connection env self ?options conn cs s")
  have da: "data_view sa = data_view s"
    using arg_cong [OF a, of "\<lambda>p. data_view (snd p)"] by simp
  from assms(1) a obtain conn1 cs1 where rv: "rv = Inr (conn1, cs1)"
    by (cases rv) (auto simp add: execute_query_try_def Let_def)
  obtain rb sb where b: "schema_popup_and_help env self ?options conn1 sa = (rb, sb)"
    by (cases "schema_popup_and_help env self ?options conn1 sa")
  have db: "data_view sb = data_view s"
    using arg_cong [OF b, of "\<lambda>p. data_view (snd p)"] da by simp
  from assms a rv b have rb: "rb = Inr ()"
    by (cases rb) (auto simp add: execute_query_try_def answer_query_def Let_def and_then_def)
  obtain rc sc where c: "submit_query env ?options conn1 query result_set sb = (rc, sc)"
    by (cases "submit_query env ?options conn1 query result_set sb")
  have dc: "data_view sc = data_view s"
    using arg_cong [OF c, of "\<lambda>p. data_view (snd p)"] db by simp
  from assms a rv b rb c obtain pq raw path where rc: "rc = Inr (pq, raw, path)"
    by (cases rc) (auto simp add: execute_query_try_def answer_query_def Let_def and_then_def)
  obtain rd s2 where d: "model_query_results env self parsed conn1 pq raw result_set sc = (rd, s2)"
    by (cases "model_query_results env self parsed conn1 pq raw result_set sc")
  from assms a rv b rb c rc d obtain saved ftid where rd: "rd = Inr (saved, ftid)"
    by (cases rd) (auto simp add: execute_query_try_def answer_query_def Let_def and_then_def)
  from assms a rv b rb c rc d rd
  have e: "shape_result env self ?options suppress cs1 result_set path saved ftid s2 = (Inr v, s3)"
    by (auto simp add: execute_query_try_def answer_query_def Let_def and_then_def split: prod.splits sum.splits)
  note m = model_query_results_success [OF d [unfolded rd]]
  show ?thesis
  proof (rule that [OF e])
    show "shell_user_ns s2 = shell_user_ns s"
      using m(1) data_view_eqD(3) [OF dc] by simp
    show "raw_results s2 saved = raw" using m(2) .
    show "execute_result env conn1 pq = Inr raw"
      using submit_query_success [OF c [unfolded rc]] .
    show "saved = n_result_sets s" if "result_set = None"
      using m(3) [OF that] data_view_eqD(1) [OF dc] by simp
    show "fork_result_result env r 0 = Inr saved" if "result_set = Some r" for r
      using m(4) [OF that] .
  qed
qed

subsection \<open>Pieces that leave the one-time setup alone\<close>

lemma setup_kept_refl [simp]: "setup_kept c s s"
  by (simp add: setup_kept_def)

lemma setup_kept_trans:
  "setup_kept c s s1 \<Longrightarrow> setup_kept c s1 s2 \<Longrightarrow> setup_kept c s s2"
  by (auto simp add: setup_kept_def)

lemma setup_kept_budget: "setup_kept c s s1 \<Longrightarrow> within_budget 0 c s s1"
  by (auto simp add: setup_kept_def within_budget_def popup_budget_def menu_budget_def)

lemma within_budget_trans:
  "within_budget k c s s1 \<Longrightarrow> within_budget k1 c s1 s2 \<Longrightarrow> within_budget (k + k1) c s s2"
  by (auto simp add: within_budget_def)

lemma within_budget_weaken:
  "within_budget k c s s1 \<Longrightarrow> k \<le> k1 \<Longrightarrow> within_budget k1 c s s1"
  by (auto simp add: within_budget_def)

lemma within_budget_kept:
  "within_budget k c s s1 \<Longrightarrow> setup_kept c s1 s2 \<Longrightarrow> within_budget k c s s2"
  using within_budget_trans [of k c s s1 0 s2] setup_kept_budget [of c s1 s2] by simp

lemma kept_within_budget:
  "setup_kept c s s1 \<Longrightarrow> within_budget k c s1 s2 \<Longrightarrow> within_budget k c s s2"
  using within_budget_trans [of 0 c s s1 k s2] setup_kept_budget [of c s s1] by simp

lemma filter_setup_trace:
  assumes "\<And>ev. P ev \<Longrightarrow> is_setup_event ev"
  shows "filter P (setup_trace s) = filter P (log s)"
  unfolding setup_trace_def filter_filter
  by (rule filter_cong) (auto dest: assms)

lemma popup_is_setup: "is_popup_schema c ev \<Longrightarrow> is_setup_event ev"
  by (cases ev) simp_all

lemma menu_is_setup: "is_add_menu_item c ev \<Longrightarrow> is_setup_event ev"
  by (cases ev) simp_all

lemma schema_path_is_setup: "is_get_schema_file_path ev \<Longrightarrow> is_setup_event ev"
  by (cases ev) simp_all

lemma validate_is_setup: "is_validate ev \<Longrightarrow> is_setup_event ev"
  by (cases ev) simp_all

lemma setup_view_counts:
  assumes "setup_view s1 = setup_view s"
  shows "popups c s1 = popups c s" and "menu_items c s1 = menu_items c s"
    and "schema_path_calls s1 = schema_path_calls s" and "probes s1 = probes s"
    and "connections s1 = connections s" and "n_connections s1 = n_connections s"
proof -
  from assms have tr: "setup_trace s1 = setup_trace s"
    and "connections s1 = connections s" and "n_connections s1 = n_connections s"
    by (simp_all add: setup_view_def)
  then show "connections s1 = connections s" and "n_connections s1 = n_connections s"
    by simp_all
  show "popups c s1 = popups c s"
    using filter_setup_trace [of "is_popup_schema c" s1] filter_setup_trace [of "is_popup_schema c" s]
      popup_is_setup tr by (simp add: popups_def)
  show "menu_items c s1 = menu_items c s"
    using filter_setup_trace [of "is_add_menu_item c" s1] filter_setup_trace [of "is_add_menu_item c" s]
      menu_is_setup tr by (simp add: menu_items_def)
  show "schema_path_calls s1 = schema_path_calls s"
    using filter_setup_trace [of is_get_schema_file_path s1]
      filter_setup_trace [of is_get_schema_file_path s]
      schema_path_is_setup tr by (simp add: schema_path_calls_def)
  show "probes s1 = probes s"
    using filter_setup_trace [of is_validate s1] filter_setup_trace [of is_validate s]
      validate_is_setup tr by (simp add: probes_def)
qed

lemma setup_view_kept: "setup_view s1 = setup_view s \<Longrightarrow> setup_kept c s s1"
  using setup_view_counts [of s1 s] by (simp add: setup_kept_def)

lemma count_simps [simp]:
  "popups c (emit ev s) = (if is_popup_schema c ev then Suc (popups c s) else popups c s)"
  "menu_items c (emit ev s) = (if is_add_menu_item c ev then Suc (menu_items c s) else menu_items c s)"
  "schema_path_calls (emit ev s) =
     (if is_get_schema_file_path ev then Suc (schema_path_calls s) else schema_path_calls s)"
  "probes (emit ev s) = (if is_validate ev then probes s @ [ev] else probes s)"
  "popups c (update_connection conn f s) = popups c s"
  "menu_items c (update_connection conn f s) = menu_items c s"
  "schema_path_calls (update_connection conn f s) = schema_path_calls s"
  "probes (update_connection conn f s) = probes s"
  "popups c (note_raise e s) = popups c s"
  "menu_items c (note_raise e s) = menu_items c s"
  "schema_path_calls (note_raise e s) = schema_path_calls s"
  "probes (note_raise e s) = probes s"
  "popups c (snd (raising rr s)) = popups c s"
  "menu_items c (snd (raising rr s)) = menu_items c s"
  "schema_path_calls (snd (raising rr s)) = schema_path_calls s"
  "probes (snd (raising rr s)) = probes s"
  by (simp_all add: popups_def menu_items_def schema_path_calls_def probes_def)

lemma flush_help_kept: "setup_kept c s (flush_help env self user_ns s)"
  by (simp add: setup_kept_def flush_help_def submit_get_notebook_url_def Let_def)

lemma show_connection_info_kept: "setup_kept c s (show_connection_info env self mode s)"
  by (simp add: setup_kept_def show_connection_info_def Let_def)

lemma get_connection_kept: "setup_kept c s (snd (get_connection env connection_string s))"
  by (simp add: setup_kept_def get_connection_def Let_def popups_def menu_items_def
      schema_path_calls_def split: sum.splits resolution.splits)

lemma validate_kept: "setup_kept c s (snd (validate env conn s))"
  by (simp add: setup_kept_def validate_def Let_def split: option.splits)

lemma set_validation_result_kept: "setup_kept c s (set_validation_result conn b s)"
  by (simp add: setup_kept_def set_validation_result_def)

lemma retry_with_code_kept: "setup_kept c s (snd (retry_with_code env conn s))"
proof -
  let ?s1 = "emit (InfoMessage ''replaced connection with code authentication'') s"
  let ?cs = "code_connection_string (connections ?s1 conn)"
  have k1: "setup_kept c s ?s1" by (simp add: setup_kept_def)
  obtain r s2 where a: "get_connection env ?cs ?s1 = (r, s2)" by (cases "get_connection env ?cs ?s1")
  have k2: "setup_kept c s s2"
    using setup_kept_trans [OF k1 get_connection_kept [of c ?s1 env ?cs]] a by simp
  show ?thesis
  proof (cases r)
    case (Inl e)
    then show ?thesis using a k2 by (simp add: retry_with_code_def Let_def)
  next
    case (Inr conn2)
    obtain v s3 where b: "validate env conn2 s2 = (v, s3)" by (cases "validate env conn2 s2")
    have k3: "setup_kept c s s3"
      using setup_kept_trans [OF k2 validate_kept [of c s2 env conn2]] b by simp
    have k4: "setup_kept c s (set_validation_result conn2 True s3)"
      using setup_kept_trans [OF k3 set_validation_result_kept] .
    show ?thesis using a b Inr k3 k4 by (cases v) (simp_all add: retry_with_code_def Let_def)
  qed
qed

lemma validate_done_kept:
  "setup_kept c s (update_connection conn (\<lambda>c. c\<lparr>validate_connection_string_done := True\<rparr>) s)"
  by (simp add: setup_kept_def)

lemma validate_connection_kept:
  "setup_kept c s (snd (validate_connection env self options conn connection_string s))"
proof -
  obtain v s1 where a: "validate env conn s = (v, s1)" by (cases "validate env conn s")
  have k1: "setup_kept c s s1" using validate_kept [of c s env conn] a by simp
  show ?thesis
  proof (cases v)
    case None
    have "setup_kept c s (set_validation_result conn True s1)"
      using setup_kept_trans [OF k1 set_validation_result_kept] .
    then have "setup_kept c s (update_connection conn
        (\<lambda>c. c\<lparr>validate_connection_string_done := True\<rparr>) (set_validation_result conn True s1))"
      using setup_kept_trans [OF _ validate_done_kept] by blast
    moreover have "setup_kept c s (update_connection conn
        (\<lambda>c. c\<lparr>validate_connection_string_done := True\<rparr>) s)"
      by (rule validate_done_kept)
    ultimately show ?thesis using a None by (simp add: validate_connection_def)
  next
    case (Some e)
    let ?s2 = "emit (DangerMessage (str e)) s1"
    have k2: "setup_kept c s ?s2"
      using setup_kept_trans [OF k1, of ?s2] by (simp add: setup_kept_def)
    obtain r s3 where b: "retry_with_code env conn ?s2 = (r, s3)"
      by (cases "retry_with_code env conn ?s2")
    have k3: "setup_kept c s s3"
      using setup_kept_trans [OF k2 retry_with_code_kept [of c ?s2 env conn]] b by simp
    have k4: "setup_kept c s (update_connection conn1
        (\<lambda>c. c\<lparr>validate_connection_string_done := True\<rparr>) s3)" for conn1
      using setup_kept_trans [OF k3 validate_done_kept] .
    have k5: "setup_kept c s (update_connection conn
        (\<lambda>c. c\<lparr>validate_connection_string_done := True\<rparr>) s)"
      by (rule validate_done_kept)
    show ?thesis using a Some b k1 k3 k4 k5
      by (cases r) (auto simp add: validate_connection_def)
  qed
qed


subsection \<open>The schema actions stay within the budgets\<close>

lemma schema_popup_and_help_budget:
  "within_budget (if get_or (opt_popup_schema options) False then 1 else 0) c s
     (snd (schema_popup_and_help env self options conn s))"
  by (cases "get_schema_file_path_result env (schema_path_calls s) conn";
      cases "get_schema_file_path_result env (Suc (schema_path_calls s)) conn")
     (auto simp add: schema_popup_and_help_def get_schema_file_path_def Let_def within_budget_def
        popup_budget_def menu_budget_def)


text \<open>
  The setup events of the schema actions when the popup branch is taken and the path
  computation returns \<open>p\<close>: the popup shows \<open>p\<close>, and the help-registration branch, when
  it is taken, registers \<open>p\<close> itself if it is not empty, and otherwise what a second
  computation gives.
\<close>

lemma schema_popup_and_help_trace:
  assumes "get_or (opt_popup_schema options) False
           \<or> (\<not> auto_popup_schema_done (connections s conn)
               \<and> get_or (opt_auto_popup_schema options) (auto_popup_schema self))"
    and "get_schema_file_path_result env (schema_path_calls s) conn = Inr p"
  shows "setup_trace (snd (schema_popup_and_help env self options conn s)) =
           setup_trace s @ [GetSchemaFilePath conn, PopupSchema p conn]
             @ (if \<not> add_schema_to_help_done (connections s conn)
                   \<and> get_or (opt_add_schema_to_help options) False
                then (if truthy p then [AddMenuItem conn (conn_name (connections s conn)) p]
                      else GetSchemaFilePath conn
                           # (case get_schema_file_path_result env (Suc (schema_path_calls s)) conn of
                                Inl e \<Rightarrow> []
                              | Inr p1 \<Rightarrow> [AddMenuItem conn (conn_name (connections s conn)) p1]))
                else [])"
  using assms
  by (cases "get_schema_file_path_result env (Suc (schema_path_calls s)) conn")
     (auto simp add: schema_popup_and_help_def get_schema_file_path_def Let_def)

subsection \<open>The whole invocation\<close>

lemma show_connection_info_setup [simp]:
  "setup_view (show_connection_info env self mode s) = setup_view s"
  by (simp add: show_connection_info_def Let_def)

lemma flush_help_setup [simp]:
  "setup_view (flush_help env self user_ns s) = setup_view s"
  by (simp add: flush_help_def submit_get_notebook_url_def Let_def)

lemma answer_query_setup [simp]:
  "setup_view (snd (answer_query env self parsed suppress query conn cs result_set s)) = setup_view s"
proof (cases "query = []")
  case True
  then show ?thesis by (simp add: answer_query_def Let_def)
next
  case False
  have inner: "setup_view (snd (and_then
        (model_query_results env self parsed conn pq raw result_set)
        (\<lambda>(saved, ftid). shape_result env self (parsed_options parsed) suppress cs result_set
                             path saved ftid) s1)) = setup_view s1" for pq raw path s1
    by (rule and_then_keeps) (simp_all add: split_beta)
  have "setup_view (snd (and_then (submit_query env (parsed_options parsed) conn query result_set)
        (\<lambda>(pq, raw, path). and_then
           (model_query_results env self parsed conn pq raw result_set)
           (\<lambda>(saved, ftid). shape_result env self (parsed_options parsed) suppress cs result_set
                                path saved ftid)) s)) = setup_view s"
    by (rule and_then_keeps) (simp_all add: split_beta inner)
  then show ?thesis using False by (simp add: answer_query_def Let_def)
qed

lemma execute_query_try_budget:
  "within_budget (if get_or (opt_popup_schema (parsed_options parsed)) False then 1 else 0) c s
     (snd (execute_query_try env self parsed suppress query conn cs result_set s))"
proof -
  let ?options = "parsed_options parsed"
  let ?e = "if get_or (opt_popup_schema ?options) False then 1 else 0 :: nat"
  obtain rv sa where a: "validate_connection env self ?options conn cs s = (rv, sa)"
    by (cases "validate_connection env self ?options conn cs s")
  have k1: "within_budget 0 c s sa"
    using setup_kept_budget [OF validate_connection_kept [of c s env self ?options conn cs]] a
    by simp
  show ?thesis
  proof (cases rv)
    case (Inl ex)
    then show ?thesis using a within_budget_weaken [OF k1, of ?e] by (simp add: execute_query_try_def)
  next
    case (Inr pair)
    obtain conn1 cs1 where pair: "pair = (conn1, cs1)" by (cases pair)
    obtain rb sb where b: "schema_popup_and_help env self ?options conn1 sa = (rb, sb)"
      by (cases "schema_popup_and_help env self ?options conn1 sa")
    have k2: "within_budget ?e c s sb"
      using within_budget_trans [OF k1 schema_popup_and_help_budget [of ?options c sa env self conn1]] b
      by simp
    show ?thesis
    proof (cases rb)
      case (Inl e)
      then show ?thesis using a Inr pair b k2 by (simp add: execute_query_try_def and_then_def)
    next
      case (Inr u)
      let ?r = "answer_query env self parsed suppress query conn1 cs1 result_set sb"
      have "setup_kept c sb (snd ?r)" by (rule setup_view_kept) simp
      then have "within_budget ?e c s (snd ?r)"
        using within_budget_kept [OF k2] by blast
      then show ?thesis using a \<open>rv = Inr pair\<close> pair b Inr
        by (cases ?r; cases "fst ?r") (simp_all add: execute_query_try_def and_then_def)
    qed
  qed
qed



text \<open>
  The three ways through \<^verbatim>\<open>execute_query\<close>: the early return, a connection that does
  not resolve, and the main block. The handlers add messages only.
\<close>

lemma execute_query_cases:
  obtains
    (early) "snd (execute_query env self parsed user_ns result_set s) = flush_help env self user_ns s"
      "strip (parsed_query parsed) = [] \<and> parsed_connection parsed = []"
  | (unresolved) e s1 where
      "get_connection env (parsed_connection parsed) (flush_help env self user_ns s) = (Inl e, s1)"
      "setup_view (snd (execute_query env self parsed user_ns result_set s)) = setup_view s1"
  | (resolved) conn s1 where
      "get_connection env (parsed_connection parsed) (flush_help env self user_ns s) = (Inr conn, s1)"
      "setup_view (snd (execute_query env self parsed user_ns result_set s))
       = setup_view (snd (execute_query_try env self parsed
           (suppress_results_of self (parsed_options parsed)) (strip (parsed_query parsed)) conn
           (parsed_connection parsed) result_set s1))"
proof (cases "strip (parsed_query parsed) = [] \<and> parsed_connection parsed = []")
  case True
  then have "snd (execute_query env self parsed user_ns result_set s) = flush_help env self user_ns s"
    by (simp add: execute_query_def Let_def)
  then show ?thesis using True by (rule early)
next
  case False
  let ?s0 = "flush_help env self user_ns s"
  obtain rg s1 where g: "get_connection env (parsed_connection parsed) ?s0 = (rg, s1)"
    by (cases "get_connection env (parsed_connection parsed) ?s0")
  show ?thesis
  proof (cases rg)
    case (Inl e)
    have "setup_view (snd (execute_query env self parsed user_ns result_set s)) = setup_view s1"
      using False g Inl by (auto simp add: execute_query_def Let_def)
    with g Inl show ?thesis by (auto intro: unresolved)
  next
    case (Inr conn)
    let ?t = "execute_query_try env self parsed
           (suppress_results_of self (parsed_options parsed)) (strip (parsed_query parsed)) conn
           (parsed_connection parsed) result_set s1"
    have "setup_view (snd (execute_query env self parsed user_ns result_set s)) = setup_view (snd ?t)"
      using False g Inr
      by (cases ?t; cases "fst ?t")
         (auto simp add: execute_query_def Let_def split: prod.splits)
    with g Inr show ?thesis by (auto intro: resolved)
  qed
qed


lemma execute_query_budget:
  "within_budget (if get_or (opt_popup_schema (parsed_options parsed)) False then 1 else 0) c s
     (snd (execute_query env self parsed user_ns result_set s))"
proof -
  let ?e = "if get_or (opt_popup_schema (parsed_options parsed)) False then 1 else 0 :: nat"
  let ?s0 = "flush_help env self user_ns s"
  have k0: "setup_kept c s ?s0" by (rule flush_help_kept)
  show ?thesis
  proof (cases rule: execute_query_cases [of env self parsed user_ns result_set s])
    case early
    then show ?thesis using within_budget_weaken [OF setup_kept_budget [OF k0], of ?e] by simp
  next
    case (unresolved e s1)
    have "setup_kept c ?s0 s1"
      using get_connection_kept [of c ?s0 env "parsed_connection parsed"] unresolved(1) by simp
    then have "setup_kept c ?s0 (snd (execute_query env self parsed user_ns result_set s))"
      using setup_kept_trans [OF _ setup_view_kept [OF unresolved(2)]] by blast
    then have "setup_kept c s (snd (execute_query env self parsed user_ns result_set s))"
      using setup_kept_trans [OF k0] by blast
    then show ?thesis using within_budget_weaken [OF setup_kept_budget, of c s _ ?e] by simp
  next
    case (resolved conn s1)
    let ?t = "execute_query_try env self parsed
           (suppress_results_of self (parsed_options parsed)) (strip (parsed_query parsed)) conn
           (parsed_connection parsed) result_set s1"
    have "setup_kept c ?s0 s1"
      using get_connection_kept [of c ?s0 env "parsed_connection parsed"] resolved(1) by simp
    then have "setup_kept c s s1" using setup_kept_trans [OF k0] by blast
    then have "within_budget ?e c s (snd ?t)"
      using kept_within_budget [OF _ execute_query_try_budget] by blast
    then show ?thesis
      using within_budget_kept [OF _ setup_view_kept [OF resolved(2)]] by blast
  qed
qed


text \<open>
  Once the validation of an invocation has completed, the setup events and the
  connection objects it leaves are those its schema actions leave.
\<close>

lemma execute_query_try_validated:
  assumes "validate_connection env self (parsed_options parsed) conn cs s = (Inr (conn1, cs1), s2)"
  shows "setup_view (snd (execute_query_try env self parsed suppress query conn cs result_set s))
         = setup_view (snd (schema_popup_and_help env self (parsed_options parsed) conn1 s2))"
proof -
  let ?options = "parsed_options parsed"
  obtain rb sb where b: "schema_popup_and_help env self ?options conn1 s2 = (rb, sb)"
    by (cases "schema_popup_and_help env self ?options conn1 s2")
  show ?thesis
  proof (cases rb)
    case (Inl e)
    then show ?thesis using assms b by (simp add: execute_query_try_def and_then_def)
  next
    case (Inr u)
    let ?r = "answer_query env self parsed suppress query conn1 cs1 result_set sb"
    have "setup_view (snd ?r) = setup_view sb" by simp
    then show ?thesis using assms b Inr
      by (cases ?r; cases "fst ?r") (simp_all add: execute_query_try_def and_then_def)
  qed
qed

lemma execute_query_validated:
  assumes "\<not> (strip (parsed_query parsed) = [] \<and> parsed_connection parsed = [])"
    and "get_connection env (parsed_connection parsed) (flush_help env self user_ns s) = (Inr conn, s1)"
    and "validate_connection env self (parsed_options parsed) conn (parsed_connection parsed) s1
         = (Inr (conn1, cs1), s2)"
  shows "setup_view (snd (execute_query env self parsed user_ns result_set s))
         = setup_view (snd (schema_popup_and_help env self (parsed_options parsed) conn1 s2))"
    and "setup_kept c s s2"
proof -
  show "setup_view (snd (execute_query env self parsed user_ns result_set s))
         = setup_view (snd (schema_popup_and_help env self (parsed_options parsed) conn1 s2))"
  proof (cases rule: execute_query_cases [of env self parsed user_ns result_set s])
    case early
    then show ?thesis using assms(1) by simp
  next
    case (unresolved e sx)
    then show ?thesis using assms(2) by simp
  next
    case (resolved conn' s1')
    with assms(2) have eq: "conn' = conn" "s1' = s1" by simp_all
    show ?thesis
      using resolved(2) execute_query_try_validated [OF assms(3)] unfolding eq by simp
  qed
  have "setup_kept c s (flush_help env self user_ns s)" by (rule flush_help_kept)
  moreover have "setup_kept c (flush_help env self user_ns s) s1"
    using get_connection_kept [of c "flush_help env self user_ns s" env "parsed_connection parsed"]
      assms(2) by simp
  moreover have "setup_kept c s1 s2"
    using validate_connection_kept [of c s1 env self "parsed_options parsed" conn
        "parsed_connection parsed"] assms(3) by simp
  ultimately show "setup_kept c s s2" by (blast intro: setup_kept_trans)
qed



lemma popups_setup_trace: "popups c s = length (filter (is_popup_schema c) (setup_trace s))"
  using filter_setup_trace [of "is_popup_schema c" s] popup_is_setup by (simp add: popups_def)

subsection \<open>Every exception a collaborator raises is recorded\<close>

lemma raised_kept [simp]:
  "raised (set_validation_result conn b s) = raised s"
  "raised (show_connection_info env self mode s) = raised s"
  "raised (flush_help env self user_ns s) = raised s"
  "raised (add_feedback self options saved item s) = raised s"
  by (simp_all add: set_validation_result_def show_connection_info_def flush_help_def
      submit_get_notebook_url_def add_feedback_def Let_def)

lemma shaping_raised_kept [simp]:
  "raised (attach_metadata env self options cs suppress saved s) = raised s"
  "raised (snd (columns_to_local_vars_step self options saved result s)) = raised s"
  "raised (snd (auto_dataframe_step self options saved result s)) = raised s"
  "raised (snd (result_var_step self options saved result_set result s)) = raised s"
  "raised (saved_feedback_step self options saved path s) = raised s"
  "raised (decide_display self options suppress saved result s) = raised s"
  by (simp_all add: attach_metadata_def columns_to_local_vars_step_def auto_dataframe_step_def
      result_var_step_def saved_feedback_step_def decide_display_def Let_def)




lemma get_schema_file_path_raised:
  "raised (snd (get_schema_file_path env conn s))
   = raised s @ raised_of (fst (get_schema_file_path env conn s))"
  by (simp add: get_schema_file_path_def raised_of_def)












subsection \<open>Sequences of invocations\<close>


lemma execute_queries_budget:
  "within_budget (length (filter explicit_popup invs)) c s (execute_queries invs s)"
proof (induction invs arbitrary: s)
  case Nil
  show ?case by (simp add: within_budget_def)
next
  case (Cons i rest)
  let ?s1 = "snd (execute_query (inv_env i) (inv_self i) (inv_parsed i) (inv_user_ns i)
                    (inv_result_set i) s)"
  have a: "within_budget (if explicit_popup i then 1 else 0) c s ?s1"
    unfolding explicit_popup_def by (rule execute_query_budget)
  have b: "within_budget (length (filter explicit_popup rest)) c ?s1 (execute_queries rest ?s1)"
    by (rule Cons.IH)
  show ?case using within_budget_trans [OF a b] by (cases "explicit_popup i") simp_all
qed

lemma automatic_popups_budget:
  assumes "c < n_connections s"
  shows "automatic_popups c invs s \<le> (if auto_popup_schema_done (connections s c) then 0 else 1)"
  using assms
proof (induction invs arbitrary: s)
  case Nil
  show ?case by simp
next
  case (Cons i rest)
  let ?s1 = "snd (execute_query (inv_env i) (inv_self i) (inv_parsed i) (inv_user_ns i)
                    (inv_result_set i) s)"
  have b: "within_budget (if explicit_popup i then 1 else 0) c s ?s1"
    unfolding explicit_popup_def by (rule execute_query_budget)
  have n: "c < n_connections ?s1" using b Cons.prems by (simp add: within_budget_def)
  have ih: "automatic_popups c rest ?s1
            \<le> (if auto_popup_schema_done (connections ?s1 c) then 0 else 1)"
    by (rule Cons.IH [OF n])
  show ?case
    using b Cons.prems ih
    by (auto simp add: within_budget_def popup_budget_def Let_def split: if_splits)
qed

subsection \<open>Evaluating the model on a concrete invocation\<close>

lemmas eval_defs = execute_query_def execute_query_try_def answer_query_def validate_connection_def retry_with_code_def
  schema_popup_and_help_def submit_query_def model_query_results_def shape_result_def
  attach_metadata_def columns_to_local_vars_step_def auto_dataframe_step_def result_var_step_def
  cache_step_def saved_feedback_step_def decide_display_def finish_def and_then_def
  flush_help_def suppress_results_of_def short_errors_of_def get_connection_def validate_def
  set_validation_result_def get_schema_file_path_def show_connection_info_def get_connection_info_def
  add_feedback_def update_connection_def update_result_set_def user_ns_update_def emit_def
  get_or_def truthy_def Let_def is_partial_table_def records_count_def save_def
  submit_get_notebook_url_def raising_def note_raise_def

lemmas sample_defs = sample_env_def sample_parsed_def sample_state_def default_kqlmagic_def
  no_options_def sample_connection_def sample_raw_def sample_result_set_def strip_def isspace_def
  columns_parsed_def dataframe_parsed_def clash_raw_def clash_env_def
  popup_parsed_def help_parsed_def popup_help_parsed_def no_schema_env_def sample_invocation_def
  unresolved_env_def failing_validation_def failing_backend_def

subsection \<open>An invocation whose main block completes\<close>

lemma execute_query_completes:
  assumes "strip (parsed_query parsed) \<noteq> []"
    and "get_connection env (parsed_connection parsed) (flush_help env self user_ns s) = (Inr conn, s1)"
    and "execute_query_try env self parsed (suppress_results_of self (parsed_options parsed))
           (strip (parsed_query parsed)) conn (parsed_connection parsed) result_set s1 = (Inr v, s2)"
  shows "execute_query env self parsed user_ns result_set s = (Inr v, s2)"
    and "data_view s1 = data_view s"
proof -
  show "execute_query env self parsed user_ns result_set s = (Inr v, s2)"
    using assms by (simp add: execute_query_def Let_def)
  show "data_view s1 = data_view s"
    using arg_cong [OF assms(2), of "\<lambda>p. data_view (snd p)"] by simp
qed

lemma split_pair: "fst p = a \<Longrightarrow> p = (a, snd p)"
  by (simp add: prod_eq_iff)

section \<open>The last raw result variable\<close>

text \<open>
  Claim C5. Take an invocation of \<^verbatim>\<open>execute_query\<close> with a query text that is not
  blank, whose connection resolves and whose main block runs to its \<^verbatim>\<open>return\<close> without
  an exception: so a raw result was obtained and every shaping step completed. Then
  \<^verbatim>\<open>execute_query\<close> returns what the block returns, and in the namespace the variable
  named by the option \<open>last_raw_result_var\<close> (by the trait of that name when the option
  is absent) is bound to the \<^verbatim>\<open>ResultSet\<close> object \<open>saved\<close> of this invocation: the
  object holds a raw result the backend returned, and it is the object allocated by this
  invocation at top level, the fork 0 of \<open>result_set\<close> on a continuation. No assumption
  is made on the options, so this holds whether the returned value is suppressed,
  converted to a dataframe or bound to another variable.
\<close>

theorem last_raw_result_is_rebound:
  assumes "strip (parsed_query parsed) \<noteq> []"
    and "get_connection env (parsed_connection parsed) (flush_help env self user_ns s) = (Inr conn, s1)"
    and "execute_query_try env self parsed (suppress_results_of self (parsed_options parsed))
           (strip (parsed_query parsed)) conn (parsed_connection parsed) result_set s1 = (Inr v, s2)"
  shows "execute_query env self parsed user_ns result_set s = (Inr v, s2)
         \<and> (\<exists>saved conn1 pq.
               shell_user_ns s2
                 (get_or (opt_last_raw_result_var (parsed_options parsed)) (last_raw_result_var self))
                 = Some (ResultSetRef saved)
               \<and> execute_result env conn1 pq = Inr (rs_raw_query_result (result_sets s2 saved))
               \<and> (case result_set of
                     None \<Rightarrow> saved = n_result_sets s
                   | Some r \<Rightarrow> fork_result_result env r 0 = Inr saved))"
proof -
  note c = execute_query_completes [OF assms]
  from assms(3) assms(1) obtain conn1 cs1 pq raw path saved ftid sa where
    shape: "shape_result env self (parsed_options parsed)
              (suppress_results_of self (parsed_options parsed)) cs1 result_set path saved ftid sa
            = (Inr v, s2)"
    and raw: "raw_results sa saved = raw"
    and ex: "execute_result env conn1 pq = Inr raw"
    and fresh: "result_set = None \<Longrightarrow> saved = n_result_sets s1"
    and fork: "\<And>r. result_set = Some r \<Longrightarrow> fork_result_result env r 0 = Inr saved"
    by (rule execute_query_try_success) blast
  have "shell_user_ns s2
          (get_or (opt_last_raw_result_var (parsed_options parsed)) (last_raw_result_var self))
        = Some (ResultSetRef saved)"
    unfolding shape_result_success(1) [OF shape] by simp
  moreover have "rs_raw_query_result (result_sets s2 saved) = raw"
    using shape_result_success(2) [OF shape] raw by (simp add: raw_results_def fun_eq_iff)
  moreover have "case result_set of
                   None \<Rightarrow> saved = n_result_sets s
                 | Some r \<Rightarrow> fork_result_result env r 0 = Inr saved"
    using fresh fork data_view_eqD(1) [OF c(2)] by (cases result_set) simp_all
  ultimately show ?thesis using c(1) ex by auto
qed


text \<open>
  The sample invocation with \<open>auto_dataframe\<close> on and the result bound to \<open>x\<close>: the
  returned value is \<^verbatim>\<open>None\<close>, and \<^verbatim>\<open>_kql_raw_result_\<close> holds the new object.
\<close>

theorem last_raw_result_is_rebound_witness:
  "strip (parsed_query (dataframe_parsed ''x'')) \<noteq> []
   \<and> execute_query sample_env default_kqlmagic (dataframe_parsed ''x'') Map.empty None sample_state
       = (Inr PyNone,
          snd (execute_query sample_env default_kqlmagic (dataframe_parsed ''x'') Map.empty None
                 sample_state))
   \<and> (\<exists>saved.
         shell_user_ns
           (snd (execute_query sample_env default_kqlmagic (dataframe_parsed ''x'') Map.empty None
                   sample_state)) ''_kql_raw_result_'' = Some (ResultSetRef saved)
         \<and> saved = n_result_sets sample_state)"
proof -
  let ?p = "dataframe_parsed ''x''"
  let ?s0 = "flush_help sample_env default_kqlmagic Map.empty sample_state"
  let ?g = "get_connection sample_env (parsed_connection ?p) ?s0"
  let ?t = "execute_query_try sample_env default_kqlmagic ?p
              (suppress_results_of default_kqlmagic (parsed_options ?p))
              (strip (parsed_query ?p)) 0 (parsed_connection ?p) None (snd ?g)"
  have h1: "strip (parsed_query ?p) \<noteq> []"
    by (simp add: sample_defs)
  have "fst ?g = Inr 0"
    by (simp add: get_connection_def sample_env_def Let_def)
  then have h2: "?g = (Inr 0, snd ?g)"
    by (simp add: prod_eq_iff)
  have "fst ?t = Inr PyNone"
    by (simp add: eval_defs sample_defs)
  then have h3: "?t = (Inr PyNone, snd ?t)"
    by (simp add: prod_eq_iff)
  have lv: "get_or (opt_last_raw_result_var (parsed_options ?p)) (last_raw_result_var default_kqlmagic)
            = ''_kql_raw_result_''"
    by (simp add: sample_defs get_or_def)
  from last_raw_result_is_rebound [OF h1 h2 h3]
  show ?thesis
    unfolding lv using h1 by auto
qed

section \<open>Columns as local variables\<close>

text \<open>
  Claim C6, as written, fails: the last raw result variable is rebound after the columns
  are, so a column whose name is the name of that variable ends up holding the
  \<^verbatim>\<open>ResultSet\<close>, not the column. Here the backend returns a table with a column
  \<^verbatim>\<open>_kql_raw_result_\<close> and \<open>columns_to_local_vars\<close> is on: the invocation completes
  without an error message and returns \<^verbatim>\<open>None\<close>, \<^verbatim>\<open>to_dict\<close> has the column under its
  name, and the variable of that name is the \<^verbatim>\<open>ResultSet\<close>.
\<close>

theorem columns_become_local_vars_counterexample:
  "get_or (opt_columns_to_local_vars (parsed_options columns_parsed))
     (columns_to_local_vars default_kqlmagic)
   \<and> fst (execute_query clash_env default_kqlmagic columns_parsed Map.empty None sample_state)
       = Inr PyNone
   \<and> log (snd (execute_query clash_env default_kqlmagic columns_parsed Map.empty None sample_state))
       = [GetConnection [], Validate 0, GetSchemaFilePath 0,
          PopupSchema (Some ''schema.html'') 0, Execute 0 ''T | take 2'']
   \<and> to_dict (result_sets
         (snd (execute_query clash_env default_kqlmagic columns_parsed Map.empty None sample_state)) 0)
         ''_kql_raw_result_'' = Some (PyColumn [''1'', ''2''])
   \<and> shell_user_ns
         (snd (execute_query clash_env default_kqlmagic columns_parsed Map.empty None sample_state))
         ''_kql_raw_result_'' = Some (ResultSetRef 0)"
  by (simp add: eval_defs sample_defs to_dict_def)

text \<open>
  Claim C6, amended. Take an invocation whose query is not blank, whose connection
  resolves and whose main block completes without an exception, with
  \<open>columns_to_local_vars\<close> active (by option, or by the trait when the option is absent),
  \<open>auto_dataframe\<close> not active and no \<open>result_var\<close>. Then \<^verbatim>\<open>execute_query\<close> returns
  \<^verbatim>\<open>None\<close>, and every column of the result whose name is not the name of the last raw
  result variable is bound, under its name, in the namespace; the last raw result
  variable holds the \<^verbatim>\<open>ResultSet\<close>.
\<close>

theorem columns_become_local_vars:
  assumes "strip (parsed_query parsed) \<noteq> []"
    and "get_connection env (parsed_connection parsed) (flush_help env self user_ns s) = (Inr conn, s1)"
    and "execute_query_try env self parsed (suppress_results_of self (parsed_options parsed))
           (strip (parsed_query parsed)) conn (parsed_connection parsed) result_set s1 = (Inr v, s2)"
    and "get_or (opt_columns_to_local_vars (parsed_options parsed)) (columns_to_local_vars self)"
    and "\<not> get_or (opt_auto_dataframe (parsed_options parsed)) (auto_dataframe self)"
    and "\<not> truthy (opt_result_var (parsed_options parsed))"
  shows "execute_query env self parsed user_ns result_set s = (Inr PyNone, s2)
         \<and> (\<exists>saved.
               shell_user_ns s2
                 (get_or (opt_last_raw_result_var (parsed_options parsed)) (last_raw_result_var self))
                 = Some (ResultSetRef saved)
               \<and> (\<forall>name column.
                     to_dict (result_sets s2 saved) name = Some column
                     \<and> name \<noteq> get_or (opt_last_raw_result_var (parsed_options parsed))
                                 (last_raw_result_var self)
                     \<longrightarrow> shell_user_ns s2 name = Some column))"
proof -
  let ?options = "parsed_options parsed"
  let ?lv = "get_or (opt_last_raw_result_var ?options) (last_raw_result_var self)"
  note c = execute_query_completes [OF assms(1-3)]
  from assms(3) assms(1) obtain conn1 cs1 pq raw path saved ftid sa where
    shape: "shape_result env self ?options (suppress_results_of self ?options) cs1 result_set
              path saved ftid sa = (Inr v, s2)"
    by (rule execute_query_try_success) blast
  have v: "v = PyNone"
    using shape_result_success(3) [OF shape] assms(4,5) by simp
  have ns: "shell_user_ns s2 = (shell_user_ns sa ++ to_dict (result_sets sa saved))(?lv \<mapsto> ResultSetRef saved)"
    unfolding shape_result_success(1) [OF shape] using assms(4,6) by simp
  have dict: "to_dict (result_sets s2 saved) = to_dict (result_sets sa saved)"
    by (rule to_dict_raw) (simp add: shape_result_success(2) [OF shape])
  have "shell_user_ns s2 ?lv = Some (ResultSetRef saved)"
    unfolding ns by simp
  moreover have "shell_user_ns s2 name = Some column"
    if "to_dict (result_sets s2 saved) name = Some column" and "name \<noteq> ?lv" for name column
    using that unfolding ns dict by (simp add: map_add_Some_iff)
  ultimately show ?thesis using c(1) v by blast
qed

text \<open>The sample invocation with \<open>columns_to_local_vars\<close> on binds both columns.\<close>

theorem columns_become_local_vars_witness:
  "strip (parsed_query columns_parsed) \<noteq> []
   \<and> get_or (opt_columns_to_local_vars (parsed_options columns_parsed))
       (columns_to_local_vars default_kqlmagic)
   \<and> execute_query sample_env default_kqlmagic columns_parsed Map.empty None sample_state
       = (Inr PyNone,
          snd (execute_query sample_env default_kqlmagic columns_parsed Map.empty None sample_state))
   \<and> shell_user_ns
         (snd (execute_query sample_env default_kqlmagic columns_parsed Map.empty None sample_state))
         ''a'' = Some (PyColumn [''1'', ''2''])
   \<and> shell_user_ns
         (snd (execute_query sample_env default_kqlmagic columns_parsed Map.empty None sample_state))
         ''b'' = Some (PyColumn [''x'', ''y''])"
proof -
  let ?p = "columns_parsed"
  let ?s0 = "flush_help sample_env default_kqlmagic Map.empty sample_state"
  let ?g = "get_connection sample_env (parsed_connection ?p) ?s0"
  let ?t = "execute_query_try sample_env default_kqlmagic ?p
              (suppress_results_of default_kqlmagic (parsed_options ?p))
              (strip (parsed_query ?p)) 0 (parsed_connection ?p) None (snd ?g)"
  have h1: "strip (parsed_query ?p) \<noteq> []"
    by (simp add: sample_defs)
  have h2: "?g = (Inr 0, snd ?g)"
    by (rule split_pair) (simp add: get_connection_def sample_env_def Let_def)
  have h3: "?t = (Inr PyNone, snd ?t)"
    by (rule split_pair) (simp add: eval_defs sample_defs)
  have h4: "get_or (opt_columns_to_local_vars (parsed_options ?p)) (columns_to_local_vars default_kqlmagic)"
    by (simp add: sample_defs get_or_def)
  have h5: "\<not> get_or (opt_auto_dataframe (parsed_options ?p)) (auto_dataframe default_kqlmagic)"
    by (simp add: sample_defs get_or_def)
  have h6: "\<not> truthy (opt_result_var (parsed_options ?p))"
    by (simp add: sample_defs truthy_def)
  have lv: "get_or (opt_last_raw_result_var (parsed_options ?p)) (last_raw_result_var default_kqlmagic)
            = ''_kql_raw_result_''"
    by (simp add: sample_defs get_or_def)
  from columns_become_local_vars [OF h1 h2 h3 h4 h5 h6]
  obtain saved where
    run: "execute_query sample_env default_kqlmagic ?p Map.empty None sample_state = (Inr PyNone, snd ?t)"
    and ref: "shell_user_ns (snd ?t) ''_kql_raw_result_'' = Some (ResultSetRef saved)"
    and cols: "\<And>name column. to_dict (result_sets (snd ?t) saved) name = Some column
                 \<Longrightarrow> name \<noteq> ''_kql_raw_result_'' \<Longrightarrow> shell_user_ns (snd ?t) name = Some column"
    unfolding lv by blast
  have "shell_user_ns (snd ?t) ''_kql_raw_result_'' = Some (ResultSetRef 0)"
    by (simp add: eval_defs sample_defs)
  with ref have saved: "saved = 0" by simp
  have a: "to_dict (result_sets (snd ?t) 0) ''a'' = Some (PyColumn [''1'', ''2''])"
    by (simp add: eval_defs sample_defs to_dict_def)
  have b: "to_dict (result_sets (snd ?t) 0) ''b'' = Some (PyColumn [''x'', ''y''])"
    by (simp add: eval_defs sample_defs to_dict_def)
  have "shell_user_ns (snd ?t) ''a'' = Some (PyColumn [''1'', ''2''])"
    using cols [of "''a''"] a saved by simp
  moreover have "shell_user_ns (snd ?t) ''b'' = Some (PyColumn [''x'', ''y''])"
    using cols [of "''b''"] b saved by simp
  ultimately show ?thesis using h1 h4 run by simp
qed

section \<open>A dataframe bound to a result variable\<close>

text \<open>
  Claim C7, as written, fails when the result variable is the last raw result variable
  itself: the rebinding of the latter comes last, so the name holds the \<^verbatim>\<open>ResultSet\<close>
  and not the dataframe. Here \<open>auto_dataframe\<close> is on and \<open>result_var\<close> is
  \<^verbatim>\<open>_kql_raw_result_\<close>, on a top-level invocation that completes without an error
  message.
\<close>

theorem dataframe_bound_to_result_var_counterexample:
  "get_or (opt_auto_dataframe (parsed_options (dataframe_parsed ''_kql_raw_result_'')))
     (auto_dataframe default_kqlmagic)
   \<and> opt_result_var (parsed_options (dataframe_parsed ''_kql_raw_result_'')) = Some ''_kql_raw_result_''
   \<and> fst (execute_query sample_env default_kqlmagic (dataframe_parsed ''_kql_raw_result_'')
            Map.empty None sample_state) = Inr PyNone
   \<and> log (snd (execute_query sample_env default_kqlmagic (dataframe_parsed ''_kql_raw_result_'')
            Map.empty None sample_state))
       = [GetConnection [], Validate 0, GetSchemaFilePath 0,
          PopupSchema (Some ''schema.html'') 0, Execute 0 ''T | take 2'']
   \<and> shell_user_ns
         (snd (execute_query sample_env default_kqlmagic (dataframe_parsed ''_kql_raw_result_'')
                 Map.empty None sample_state))
         ''_kql_raw_result_'' = Some (ResultSetRef 0)"
  by (simp add: eval_defs sample_defs)

text \<open>
  Claim C7, amended. Take a top-level invocation (no \<open>result_set\<close>) whose query is not
  blank, whose connection resolves and whose main block completes without an exception,
  with \<open>auto_dataframe\<close> active and \<open>result_var\<close> a non-empty name \<open>x\<close> other than the
  name of the last raw result variable. Then \<^verbatim>\<open>execute_query\<close> returns \<^verbatim>\<open>None\<close> and
  \<open>x\<close> is bound to the dataframe made from the \<^verbatim>\<open>ResultSet\<close> of this invocation.
\<close>

theorem dataframe_bound_to_result_var:
  assumes "strip (parsed_query parsed) \<noteq> []"
    and "get_connection env (parsed_connection parsed) (flush_help env self user_ns s) = (Inr conn, s1)"
    and "execute_query_try env self parsed (suppress_results_of self (parsed_options parsed))
           (strip (parsed_query parsed)) conn (parsed_connection parsed) None s1 = (Inr v, s2)"
    and "get_or (opt_auto_dataframe (parsed_options parsed)) (auto_dataframe self)"
    and "opt_result_var (parsed_options parsed) = Some x" and "x \<noteq> []"
    and "x \<noteq> get_or (opt_last_raw_result_var (parsed_options parsed)) (last_raw_result_var self)"
  shows "execute_query env self parsed user_ns None s = (Inr PyNone, s2)
         \<and> (\<exists>saved.
               shell_user_ns s2
                 (get_or (opt_last_raw_result_var (parsed_options parsed)) (last_raw_result_var self))
                 = Some (ResultSetRef saved)
               \<and> shell_user_ns s2 x = Some (PyDataFrame (to_dataframe (result_sets s2 saved))))"
proof -
  let ?options = "parsed_options parsed"
  let ?lv = "get_or (opt_last_raw_result_var ?options) (last_raw_result_var self)"
  note c = execute_query_completes [OF assms(1-3)]
  have rv: "truthy (opt_result_var ?options)" "the (opt_result_var ?options) = x"
    using assms(5,6) by (simp_all add: truthy_def)
  from assms(3) assms(1) obtain conn1 cs1 pq raw path saved ftid sa where
    shape: "shape_result env self ?options (suppress_results_of self ?options) cs1 None
              path saved ftid sa = (Inr v, s2)"
    by (rule execute_query_try_success) blast
  have v: "v = PyNone"
    using shape_result_success(3) [OF shape] rv by simp
  have frame: "to_dataframe (result_sets s2 saved) = to_dataframe (result_sets sa saved)"
    by (rule to_dataframe_raw) (simp add: shape_result_success(2) [OF shape])
  have "shell_user_ns s2 ?lv = Some (ResultSetRef saved)"
    unfolding shape_result_success(1) [OF shape] by simp
  moreover have "shell_user_ns s2 x = Some (PyDataFrame (to_dataframe (result_sets s2 saved)))"
    unfolding shape_result_success(1) [OF shape] frame using rv assms(4,7) by simp
  ultimately show ?thesis using c(1) v by blast
qed


text \<open>The sample invocation with \<open>auto_dataframe\<close> on and \<open>result_var\<close> \<open>x\<close>.\<close>

theorem dataframe_bound_to_result_var_witness:
  "strip (parsed_query (dataframe_parsed ''x'')) \<noteq> []
   \<and> get_or (opt_auto_dataframe (parsed_options (dataframe_parsed ''x''))) (auto_dataframe default_kqlmagic)
   \<and> opt_result_var (parsed_options (dataframe_parsed ''x'')) = Some ''x''
   \<and> execute_query sample_env default_kqlmagic (dataframe_parsed ''x'') Map.empty None sample_state
       = (Inr PyNone,
          snd (execute_query sample_env default_kqlmagic (dataframe_parsed ''x'') Map.empty None
                 sample_state))
   \<and> shell_user_ns
         (snd (execute_query sample_env default_kqlmagic (dataframe_parsed ''x'') Map.empty None
                 sample_state)) ''x''
       = Some (PyDataFrame (DataFrame (rr_columns sample_raw)))"
proof -
  let ?p = "dataframe_parsed ''x''"
  let ?s0 = "flush_help sample_env default_kqlmagic Map.empty sample_state"
  let ?g = "get_connection sample_env (parsed_connection ?p) ?s0"
  let ?t = "execute_query_try sample_env default_kqlmagic ?p
              (suppress_results_of default_kqlmagic (parsed_options ?p))
              (strip (parsed_query ?p)) 0 (parsed_connection ?p) None (snd ?g)"
  have h1: "strip (parsed_query ?p) \<noteq> []"
    by (simp add: sample_defs)
  have h2: "?g = (Inr 0, snd ?g)"
    by (rule split_pair) (simp add: get_connection_def sample_env_def Let_def)
  have h3: "?t = (Inr PyNone, snd ?t)"
    by (rule split_pair) (simp add: eval_defs sample_defs)
  have h4: "get_or (opt_auto_dataframe (parsed_options ?p)) (auto_dataframe default_kqlmagic)"
    by (simp add: sample_defs get_or_def)
  have h5: "opt_result_var (parsed_options ?p) = Some ''x''"
    by (simp add: sample_defs)
  have h6: "''x'' \<noteq> []" by simp
  have lv: "get_or (opt_last_raw_result_var (parsed_options ?p)) (last_raw_result_var default_kqlmagic)
            = ''_kql_raw_result_''"
    by (simp add: sample_defs get_or_def)
  have h7: "''x'' \<noteq> get_or (opt_last_raw_result_var (parsed_options ?p))
                       (last_raw_result_var default_kqlmagic)"
    unfolding lv by simp
  from dataframe_bound_to_result_var [OF h1 h2 h3 h4 h5 h6 h7]
  obtain saved where
    run: "execute_query sample_env default_kqlmagic ?p Map.empty None sample_state = (Inr PyNone, snd ?t)"
    and ref: "shell_user_ns (snd ?t) ''_kql_raw_result_'' = Some (ResultSetRef saved)"
    and df: "shell_user_ns (snd ?t) ''x'' = Some (PyDataFrame (to_dataframe (result_sets (snd ?t) saved)))"
    unfolding lv by blast
  have "shell_user_ns (snd ?t) ''_kql_raw_result_'' = Some (ResultSetRef 0)"
    by (simp add: eval_defs sample_defs)
  with ref have saved: "saved = 0" by simp
  have "to_dataframe (result_sets (snd ?t) 0) = DataFrame (rr_columns sample_raw)"
    by (simp add: eval_defs sample_defs to_dataframe_def)
  with df saved have "shell_user_ns (snd ?t) ''x'' = Some (PyDataFrame (DataFrame (rr_columns sample_raw)))"
    by simp
  then show ?thesis using h1 h4 h5 run by simp
qed

section \<open>The invocation with neither query nor connection\<close>

lemma flush_help_connection_info:
  "filter is_connection_info (log (flush_help env self user_ns s)) = filter is_connection_info (log s)"
  by (simp add: flush_help_def submit_get_notebook_url_def Let_def)

text \<open>
  Claim C4 says that an invocation with an empty query and an empty connection text
  returns \<^verbatim>\<open>None\<close> and displays the connection list once when a connection exists. The
  method returns \<^verbatim>\<open>None\<close> at its first test of the two texts, before any connection
  is looked at: the state after the call is the state after the help preamble, and no
  connection information has been added to the trace, whatever the registry holds.
\<close>

theorem empty_invocation_displays_nothing:
  assumes "strip (parsed_query parsed) = []" and "parsed_connection parsed = []"
  shows "execute_query env self parsed user_ns result_set s
           = (Inr PyNone, flush_help env self user_ns s)
         \<and> filter is_connection_info (log (flush_help env self user_ns s))
             = filter is_connection_info (log s)"
  using assms by (simp add: execute_query_def Let_def flush_help_connection_info)

text \<open>
  With one connection in the registry and a blank query the sample state is returned
  as it was, trace included.
\<close>

theorem empty_invocation_displays_nothing_witness:
  "strip (parsed_query (sample_parsed\<lparr>parsed_query := '' ''\<rparr>)) = []
   \<and> parsed_connection (sample_parsed\<lparr>parsed_query := '' ''\<rparr>) = []
   \<and> n_connections sample_state = 1
   \<and> execute_query sample_env default_kqlmagic (sample_parsed\<lparr>parsed_query := '' ''\<rparr>)
         Map.empty None sample_state = (Inr PyNone, sample_state)"
proof -
  have a: "strip (parsed_query (sample_parsed\<lparr>parsed_query := '' ''\<rparr>)) = []"
    by (simp add: strip_def isspace_def)
  have b: "parsed_connection (sample_parsed\<lparr>parsed_query := '' ''\<rparr>) = []"
    by (simp add: sample_parsed_def)
  have c: "flush_help sample_env default_kqlmagic Map.empty sample_state = sample_state"
    by (simp add: flush_help_def sample_env_def)
  show ?thesis
    using empty_invocation_displays_nothing
            [OF a b, of sample_env default_kqlmagic Map.empty None sample_state] a b c
    by (simp add: sample_state_def)
qed

section \<open>The option add_schema_to_help\<close>

text \<open>
  Claim C9 lists \<open>add_schema_to_help\<close> among the options that fall back to the trait of
  the same name. The method reads it with \<^verbatim>\<open>options.get("add_schema_to_help")\<close>, with
  no default: with the trait at its default \<^verbatim>\<open>True\<close>, the option absent and the
  connection not yet registered in the help menu, the sample invocation completes
  without calling \<^verbatim>\<open>Help_html.add_menu_item\<close> and leaves
  \<open>add_schema_to_help_done\<close> unset. The same invocation with the option given as
  \<^verbatim>\<open>True\<close> registers the schema.
\<close>

theorem add_schema_to_help_ignores_trait:
  "add_schema_to_help default_kqlmagic
   \<and> opt_add_schema_to_help (parsed_options sample_parsed) = None
   \<and> \<not> add_schema_to_help_done (connections sample_state 0)
   \<and> log (snd (execute_query sample_env default_kqlmagic sample_parsed Map.empty None sample_state))
       = [GetConnection [], Validate 0, GetSchemaFilePath 0,
          PopupSchema (Some ''schema.html'') 0, Execute 0 ''T | take 2'']
   \<and> \<not> add_schema_to_help_done
         (connections
            (snd (execute_query sample_env default_kqlmagic sample_parsed Map.empty None sample_state)) 0)
   \<and> log (snd (execute_query sample_env default_kqlmagic
                  (sample_parsed\<lparr>parsed_options := no_options\<lparr>opt_add_schema_to_help := Some True\<rparr>\<rparr>)
                  Map.empty None sample_state))
       = [GetConnection [], Validate 0, GetSchemaFilePath 0,
          PopupSchema (Some ''schema.html'') 0,
          AddMenuItem 0 ''Samples@help'' (Some ''schema.html''), Execute 0 ''T | take 2'']"
  by (simp add: eval_defs sample_defs)

section \<open>The retry after a multi-factor authentication error\<close>

lemma code_connection_string_nonempty [simp]: "code_connection_string c \<noteq> []"
  by (simp add: code_connection_string_def)

lemma retry_condition_at_start: "\<not> retry_condition mfa_message_at_start sample_connection"
  by (simp add: retry_condition_def mfa_message_at_start_def str_find_def)

lemma retry_condition_inside: "retry_condition mfa_message sample_connection"
  by (simp add: retry_condition_def mfa_message_def str_find_def sample_connection_def)

text \<open>
  Claim C1 says that a validation error whose message contains the code
  \<^verbatim>\<open>AADSTS50079\<close> and the text \<^verbatim>\<open>multi-factor authentication\<close>, on a Kusto
  connection, is retried once with the device-code connection string. The method tests
  \<^verbatim>\<open>msg.find(...) > 0\<close>, which is false for an occurrence at index 0. With a message
  that starts with the code, and has the text further on, on a Kusto connection: the
  retry condition is false, the probe is called once, no second connection is resolved,
  and the error goes to the outer handler. The same message after the word \<^verbatim>\<open>Error\<close>
  is retried: the message is displayed, the device-code connection string for the same
  cluster and database is resolved, and the probe is called once more.
\<close>

theorem mfa_signature_at_start_is_not_retried:
  "startswith mfa_message_at_start ''AADSTS50079''
   \<and> str_find mfa_message_at_start ''multi-factor authentication'' = 26
   \<and> engine (connections sample_state 0) = KustoEngine
   \<and> \<not> retry_condition mfa_message_at_start (connections sample_state 0)
   \<and> log (snd (execute_query (failing_validation mfa_message_at_start) default_kqlmagic
                  sample_parsed Map.empty None sample_state))
       = [GetConnection [], Validate 0, ConnectionInfoMessage [''Samples@help''],
          DangerMessage mfa_message_at_start]
   \<and> log (snd (execute_query (failing_validation mfa_message) default_kqlmagic
                  sample_parsed Map.empty None sample_state))
       = [GetConnection [], Validate 0, DangerMessage mfa_message,
          InfoMessage ''replaced connection with code authentication'',
          GetConnection (code_connection_string sample_connection), Validate 0,
          DangerMessage mfa_message]"
proof -
  have a: "startswith mfa_message_at_start ''AADSTS50079''"
    by (simp add: mfa_message_at_start_def)
  have b: "str_find mfa_message_at_start ''multi-factor authentication'' = 26"
    by (simp add: mfa_message_at_start_def str_find_def)
  have c: "engine (connections sample_state 0) = KustoEngine"
    by (simp add: sample_state_def sample_connection_def)
  have d: "\<not> retry_condition mfa_message_at_start (connections sample_state 0)"
    using retry_condition_at_start by (simp add: sample_state_def)
  have e: "log (snd (execute_query (failing_validation mfa_message_at_start) default_kqlmagic
                  sample_parsed Map.empty None sample_state))
       = [GetConnection [], Validate 0, ConnectionInfoMessage [''Samples@help''],
          DangerMessage mfa_message_at_start]"
    using retry_condition_at_start
    by (simp add: eval_defs sample_defs failing_validation_def)
  have f: "log (snd (execute_query (failing_validation mfa_message) default_kqlmagic
                  sample_parsed Map.empty None sample_state))
       = [GetConnection [], Validate 0, DangerMessage mfa_message,
          InfoMessage ''replaced connection with code authentication'',
          GetConnection (code_connection_string sample_connection), Validate 0,
          DangerMessage mfa_message]"
    using retry_condition_inside
    by (simp add: eval_defs sample_defs failing_validation_def)
  show ?thesis using a b c d e f by simp
qed

section \<open>Validation happens once per connection\<close>





section \<open>The schema popup and the help-menu entry\<close>

text \<open>
  Claim C8, as written, fails in two places. The popup is not gated by
  \<open>auto_popup_schema_done\<close> when the option \<open>popup_schema\<close> asks for it: two invocations
  with that option on one connection show the schema twice. And the schema file path of
  the popup branch is computed again by the help-registration branch when it is empty or
  \<^verbatim>\<open>None\<close> (\<^verbatim>\<open>schema_file_path or ...\<close>): with a collaborator that returns \<^verbatim>\<open>None\<close>,
  one invocation computes it twice.
\<close>

theorem schema_actions_once_per_connection_counterexample:
  "popups 0 sample_state = 0
   \<and> popups 0 (execute_queries [sample_invocation popup_parsed, sample_invocation popup_parsed]
        sample_state) = 2
   \<and> schema_path_calls sample_state = 0
   \<and> schema_path_calls
        (snd (execute_query no_schema_env default_kqlmagic help_parsed Map.empty None sample_state))
       = 2"
proof -
  have a: "popups 0 sample_state = 0" "schema_path_calls sample_state = 0"
    by (simp_all add: popups_def schema_path_calls_def sample_state_def)
  have b: "popups 0 (execute_queries [sample_invocation popup_parsed, sample_invocation popup_parsed]
        sample_state) = 2"
    by (simp add: popups_def eval_defs sample_defs raising_def note_raise_def
        schema_path_calls_def)
  have c: "schema_path_calls
        (snd (execute_query no_schema_env default_kqlmagic help_parsed Map.empty None sample_state))
       = 2"
    by (simp add: schema_path_calls_def eval_defs sample_defs raising_def note_raise_def)
  show ?thesis using a b c by simp
qed

text \<open>
  Claim C8, amended. Let \<open>c\<close> be a connection of the registry and \<open>invs\<close> any sequence of
  invocations run in the same process from the state \<open>s\<close>.

  The help-menu entry of \<open>c\<close> is registered at most once more, and not at all when
  \<open>add_schema_to_help_done\<close> is set. The invocations that do not pass the option
  \<open>popup_schema\<close> show the schema of \<open>c\<close> at most once between them, and not at all when
  \<open>auto_popup_schema_done\<close> is set, wherever the invocations that pass the option stand
  in the sequence; and each of these adds at most one popup.

  An invocation whose validation completes with the connection \<open>conn\<close>, that passes
  \<open>popup_schema\<close> or is the first with \<open>auto_popup_schema\<close> enabled, and for which the
  computation of the schema file path returns \<open>p\<close>, shows the schema of \<open>conn\<close> exactly
  once, whatever \<open>auto_popup_schema_done\<close> is: so the option \<open>popup_schema\<close> pops up every
  time. Its setup events after the validation are the computation of the path and the
  popup of \<open>p\<close>, followed, when the help-registration branch is taken, by the
  registration of \<open>p\<close> itself if \<open>p\<close> is a non-empty string; if \<open>p\<close> is empty or
  \<^verbatim>\<open>None\<close>, by a second computation and the registration of its result.
\<close>

theorem schema_actions_once_per_connection:
  assumes "c < n_connections s"
  shows "menu_items c (execute_queries invs s) \<le> menu_budget c s
         \<and> automatic_popups c invs s \<le> (if auto_popup_schema_done (connections s c) then 0 else 1)
         \<and> popups c (execute_queries invs s)
             \<le> popup_budget c s + length (filter explicit_popup invs)
         \<and> (\<not> (strip (parsed_query parsed) = [] \<and> parsed_connection parsed = [])
              \<and> get_connection env (parsed_connection parsed) (flush_help env self user_ns s)
                  = (Inr conn0, s1)
              \<and> validate_connection env self (parsed_options parsed) conn0
                    (parsed_connection parsed) s1 = (Inr (conn, cs1), s2)
              \<and> (get_or (opt_popup_schema (parsed_options parsed)) False
                   \<or> (\<not> auto_popup_schema_done (connections s2 conn)
                       \<and> get_or (opt_auto_popup_schema (parsed_options parsed))
                             (auto_popup_schema self)))
              \<and> get_schema_file_path_result env (schema_path_calls s2) conn = Inr p
              \<longrightarrow>
                popups conn (snd (execute_query env self parsed user_ns result_set s))
                  = Suc (popups conn s)
                \<and> setup_trace (snd (execute_query env self parsed user_ns result_set s)) =
                    setup_trace s2 @ [GetSchemaFilePath conn, PopupSchema p conn]
                      @ (if \<not> add_schema_to_help_done (connections s2 conn)
                            \<and> get_or (opt_add_schema_to_help (parsed_options parsed)) False
                         then (if truthy p
                               then [AddMenuItem conn (conn_name (connections s2 conn)) p]
                               else GetSchemaFilePath conn
                                    # (case get_schema_file_path_result env
                                              (Suc (schema_path_calls s2)) conn of
                                         Inl e \<Rightarrow> []
                                       | Inr p1 \<Rightarrow>
                                           [AddMenuItem conn (conn_name (connections s2 conn)) p1]))
                         else []))"
proof (intro conjI impI)
  note b = execute_queries_budget [of invs c s]
  show "menu_items c (execute_queries invs s) \<le> menu_budget c s"
  proof -
    have "menu_items c (execute_queries invs s) \<le> menu_budget c (execute_queries invs s)"
      by (simp add: menu_budget_def)
    also have "\<dots> \<le> menu_budget c s" using b assms by (simp add: within_budget_def)
    finally show ?thesis .
  qed
  show "automatic_popups c invs s \<le> (if auto_popup_schema_done (connections s c) then 0 else 1)"
    by (rule automatic_popups_budget [OF assms])
  show "popups c (execute_queries invs s) \<le> popup_budget c s + length (filter explicit_popup invs)"
  proof -
    have "popups c (execute_queries invs s) \<le> popup_budget c (execute_queries invs s)"
      by (simp add: popup_budget_def)
    also have "\<dots> \<le> popup_budget c s + length (filter explicit_popup invs)"
      using b assms by (simp add: within_budget_def)
    finally show ?thesis .
  qed
next
  let ?options = "parsed_options parsed"
  let ?S = "snd (execute_query env self parsed user_ns result_set s)"
  let ?registration = "if \<not> add_schema_to_help_done (connections s2 conn)
                  \<and> get_or (opt_add_schema_to_help ?options) False
               then (if truthy p
                     then [AddMenuItem conn (conn_name (connections s2 conn)) p]
                     else GetSchemaFilePath conn
                          # (case get_schema_file_path_result env (Suc (schema_path_calls s2)) conn of
                               Inl e \<Rightarrow> []
                             | Inr p1 \<Rightarrow> [AddMenuItem conn (conn_name (connections s2 conn)) p1]))
               else []"
  assume h: "\<not> (strip (parsed_query parsed) = [] \<and> parsed_connection parsed = [])
      \<and> get_connection env (parsed_connection parsed) (flush_help env self user_ns s) = (Inr conn0, s1)
      \<and> validate_connection env self ?options conn0 (parsed_connection parsed) s1
          = (Inr (conn, cs1), s2)
      \<and> (get_or (opt_popup_schema ?options) False
           \<or> (\<not> auto_popup_schema_done (connections s2 conn)
               \<and> get_or (opt_auto_popup_schema ?options) (auto_popup_schema self)))
      \<and> get_schema_file_path_result env (schema_path_calls s2) conn = Inr p"
  then have h1: "\<not> (strip (parsed_query parsed) = [] \<and> parsed_connection parsed = [])"
    and h2: "get_connection env (parsed_connection parsed) (flush_help env self user_ns s)
             = (Inr conn0, s1)"
    and h3: "validate_connection env self ?options conn0 (parsed_connection parsed) s1
             = (Inr (conn, cs1), s2)"
    and h4: "get_or (opt_popup_schema ?options) False
             \<or> (\<not> auto_popup_schema_done (connections s2 conn)
                 \<and> get_or (opt_auto_popup_schema ?options) (auto_popup_schema self))"
    and h5: "get_schema_file_path_result env (schema_path_calls s2) conn = Inr p"
    by blast+
  note v = execute_query_validated(1) [OF h1 h2 h3, where result_set = result_set]
    execute_query_validated(2) [OF h1 h2 h3, where c = conn]
  have tr: "setup_trace ?S = setup_trace s2 @ [GetSchemaFilePath conn, PopupSchema p conn] @ ?registration"
    using schema_popup_and_help_trace [OF h4 h5] v(1) by (simp add: setup_view_def)
  have nopopup: "filter (is_popup_schema conn) ?registration = []"
    by (simp split: sum.splits)
  have "popups conn ?S = Suc (popups conn s2)"
    unfolding popups_setup_trace tr by (simp add: nopopup del: append.simps)
  moreover have "popups conn s2 = popups conn s"
    using v(2) by (simp add: setup_kept_def)
  ultimately show "popups conn ?S = Suc (popups conn s)" by simp
  show "setup_trace ?S = setup_trace s2 @ [GetSchemaFilePath conn, PopupSchema p conn] @ ?registration"
    by (rule tr)
qed

text \<open>
  On the sample state, whose connection has had no popup: an invocation that relies on
  \<open>auto_popup_schema\<close>, one that passes \<open>popup_schema\<close>, and one more that relies on
  \<open>auto_popup_schema\<close> show the schema twice, once automatically. An invocation that asks
  for the popup and for the help-menu entry computes the path once and registers the path
  that popped up.
\<close>

theorem schema_actions_once_per_connection_witness:
  "0 < n_connections sample_state
   \<and> menu_budget 0 sample_state = 1 \<and> popup_budget 0 sample_state = 1
   \<and> \<not> auto_popup_schema_done (connections sample_state 0)
   \<and> length (filter explicit_popup
         [sample_invocation sample_parsed, sample_invocation popup_parsed,
          sample_invocation sample_parsed]) = 1
   \<and> menu_items 0 (execute_queries
         [sample_invocation sample_parsed, sample_invocation popup_parsed,
          sample_invocation sample_parsed] sample_state) \<le> 1
   \<and> automatic_popups 0
         [sample_invocation sample_parsed, sample_invocation popup_parsed,
          sample_invocation sample_parsed] sample_state \<le> 1
   \<and> popups 0 (execute_queries
         [sample_invocation sample_parsed, sample_invocation popup_parsed,
          sample_invocation sample_parsed] sample_state) \<le> 2
   \<and> \<not> (strip (parsed_query popup_help_parsed) = [] \<and> parsed_connection popup_help_parsed = [])
   \<and> get_connection sample_env (parsed_connection popup_help_parsed)
         (flush_help sample_env default_kqlmagic Map.empty sample_state)
       = (Inr 0, emit (GetConnection []) sample_state)
   \<and> validate_connection sample_env default_kqlmagic (parsed_options popup_help_parsed) 0
         (parsed_connection popup_help_parsed) (emit (GetConnection []) sample_state)
       = (Inr (0, []),
          update_connection 0 (\<lambda>c. c\<lparr>validate_connection_string_done := True\<rparr>)
            (set_validation_result 0 True (emit (Validate 0) (emit (GetConnection []) sample_state))))
   \<and> get_or (opt_popup_schema (parsed_options popup_help_parsed)) False
   \<and> get_schema_file_path_result sample_env 0 0 = Inr (Some ''schema.html'')
   \<and> popups 0 (snd (execute_query sample_env default_kqlmagic popup_help_parsed Map.empty None
                       sample_state)) = 1
   \<and> setup_trace (snd (execute_query sample_env default_kqlmagic popup_help_parsed Map.empty None
                          sample_state))
       = [GetConnection [], Validate 0, GetSchemaFilePath 0, PopupSchema (Some ''schema.html'') 0,
          AddMenuItem 0 ''Samples@help'' (Some ''schema.html'')]"
proof -
  let ?a = "sample_invocation sample_parsed"
  let ?e = "sample_invocation popup_parsed"
  let ?s1 = "emit (GetConnection []) sample_state"
  let ?s2 = "update_connection 0 (\<lambda>c. c\<lparr>validate_connection_string_done := True\<rparr>)
               (set_validation_result 0 True (emit (Validate 0) ?s1))"
  have h0: "0 < n_connections sample_state" by (simp add: sample_state_def)
  have b: "menu_budget 0 sample_state = 1" "popup_budget 0 sample_state = 1"
    "\<not> auto_popup_schema_done (connections sample_state 0)" "popups 0 sample_state = 0"
    by (simp_all add: menu_budget_def popup_budget_def menu_items_def popups_def
        sample_state_def sample_connection_def)
  have x: "length (filter explicit_popup [?a, ?e, ?a]) = 1"
    by (simp add: explicit_popup_def get_or_def sample_defs)
  have h1: "\<not> (strip (parsed_query popup_help_parsed) = []
               \<and> parsed_connection popup_help_parsed = [])"
    by (simp add: sample_defs)
  have h2: "get_connection sample_env (parsed_connection popup_help_parsed)
              (flush_help sample_env default_kqlmagic Map.empty sample_state) = (Inr 0, ?s1)"
    by (simp add: get_connection_def flush_help_def sample_env_def sample_parsed_def
        popup_help_parsed_def Let_def)
  have h3: "validate_connection sample_env default_kqlmagic (parsed_options popup_help_parsed) 0
              (parsed_connection popup_help_parsed) ?s1 = (Inr (0, []), ?s2)"
    by (simp add: validate_connection_def validate_def get_or_def Let_def sample_defs)
  have h4: "get_or (opt_popup_schema (parsed_options popup_help_parsed)) False"
    by (simp add: get_or_def sample_defs)
  have h5: "get_schema_file_path_result sample_env k 0 = Inr (Some ''schema.html'')" for k
    by (simp add: sample_env_def)
  have s2: "setup_trace ?s2 = [GetConnection [], Validate 0]"
    "\<not> add_schema_to_help_done (connections ?s2 0)"
    "conn_name (connections ?s2 0) = ''Samples@help''"
    "get_or (opt_add_schema_to_help (parsed_options popup_help_parsed)) False"
    by (simp_all add: setup_trace_def sample_state_def sample_connection_def
        set_validation_result_def get_or_def popup_help_parsed_def sample_parsed_def no_options_def)
  from schema_actions_once_per_connection [OF h0, where invs = "[?a, ?e, ?a]"
    and parsed = popup_help_parsed and env = sample_env and self = default_kqlmagic
    and user_ns = Map.empty and ?conn0.0 = 0 and ?s1.0 = ?s1 and conn = 0 and ?cs1.0 = "[]"
    and ?s2.0 = ?s2 and p = "Some ''schema.html''" and result_set = None]
  show ?thesis
    using h0 b x h1 h2 h3 h4 h5 s2 by (simp add: truthy_def)
qed

section \<open>Errors and the short error mode\<close>




end
